theory Spec2Isabelle
  imports Main
begin

section \<open>Release model (internal/release)\<close>

text \<open>
  The release status is the legacy chart-history status: a string type with a fixed set
  of labels. The ten labels the release model uses are the constructors here.
\<close>

datatype Status =
    StatusUnknown
  | StatusDeployed
  | StatusUninstalled
  | StatusSuperseded
  | StatusFailed
  | StatusUninstalling
  | StatusPendingInstall
  | StatusPendingUpgrade
  | StatusPendingRollback
  | StatusSkipped

text \<open>
  The deploy type given to \<open>Pend\<close>. The switch of \<open>Pend\<close> names four values and has
  no default branch; \<open>DeployTypeOther\<close> stands for every value it does not name.
\<close>

datatype DeployType =
    DeployTypeInitial
  | DeployTypeInstall
  | DeployTypeUpgrade
  | DeployTypeRollback
  | DeployTypeOther

text \<open>
  A point in time, counted from the zero instant of the time type, so that the zero
  value of the type (what \<open>IsZero\<close> tests) is \<open>0\<close>.
\<close>

type_synonym time = nat

definition IsZero :: "time \<Rightarrow> bool" where
  "IsZero t = (t = 0)"

text \<open>
  The fields of \<open>Release\<close> the transitions read or write, and its identity. The values
  snapshot, the chart, the mapper, the annotations, the notes and the resource lists are carried
  along untouched by every method below and are left out.
\<close>

record Release =
  name :: string
  namespace :: string
  revision :: int
  status :: Status
  firstDeployed :: time
  lastDeployed :: time

definition Fail :: "Release \<Rightarrow> Release" where
  "Fail r = r\<lparr>status := StatusFailed\<rparr>"

definition Supersede :: "Release \<Rightarrow> Release" where
  "Supersede r = r\<lparr>status := StatusSuperseded\<rparr>"

definition Succeed :: "Release \<Rightarrow> Release" where
  "Succeed r = r\<lparr>status := StatusDeployed\<rparr>"

definition Succeeded :: "Release \<Rightarrow> bool" where
  "Succeeded r =
     (case status r of
        StatusDeployed \<Rightarrow> True
      | StatusSuperseded \<Rightarrow> True
      | StatusUninstalled \<Rightarrow> True
      | _ \<Rightarrow> False)"

definition Failed :: "Release \<Rightarrow> bool" where
  "Failed r =
     (case status r of
        StatusFailed \<Rightarrow> True
      | StatusUnknown \<Rightarrow> True
      | StatusPendingInstall \<Rightarrow> True
      | StatusPendingUpgrade \<Rightarrow> True
      | StatusPendingRollback \<Rightarrow> True
      | StatusUninstalling \<Rightarrow> True
      | _ \<Rightarrow> False)"

text \<open>
  \<open>Pend\<close> first stores \<open>pending-install\<close>, then lets the switch overwrite it; \<open>now\<close> is
  the value the clock returns in the call.
\<close>

definition Pend :: "time \<Rightarrow> DeployType \<Rightarrow> Release \<Rightarrow> Release" where
  "Pend now deployType r =
     (let r1 = r\<lparr>status := StatusPendingInstall\<rparr>;
          r2 = (case deployType of
                  DeployTypeInitial \<Rightarrow> r1\<lparr>status := StatusPendingInstall\<rparr>
                | DeployTypeInstall \<Rightarrow> r1\<lparr>status := StatusPendingInstall\<rparr>
                | DeployTypeUpgrade \<Rightarrow> r1\<lparr>status := StatusPendingUpgrade\<rparr>
                | DeployTypeRollback \<Rightarrow> r1\<lparr>status := StatusPendingRollback\<rparr>
                | DeployTypeOther \<Rightarrow> r1);
          r3 = (if IsZero (firstDeployed r2) then r2\<lparr>firstDeployed := now\<rparr> else r2)
      in r3\<lparr>lastDeployed := now\<rparr>)"

definition Skip :: "Release \<Rightarrow> Release" where
  "Skip r = r\<lparr>status := StatusSkipped\<rparr>"

text \<open>A freshly constructed release: status unknown, both timestamps at the zero value.\<close>

definition freshRelease :: Release where
  "freshRelease =
     \<lparr>name = ''app'', namespace = ''default'', revision = 1, status = StatusUnknown,
      firstDeployed = 0, lastDeployed = 0\<rparr>"

section \<open>Levelled logger with grouped buffers (pkg/log)\<close>

datatype Level =
    SilentLevel
  | ErrorLevel
  | WarningLevel
  | InfoLevel
  | DebugLevel
  | TraceLevel

text \<open>
  \<open>slices.Index\<close>: the position of the first occurrence of \<open>x\<close>, or \<open>-1\<close> when the
  list does not hold it.
\<close>

fun Index :: "'a list \<Rightarrow> 'a \<Rightarrow> int" where
  "Index [] x = -1"
| "Index (y # ys) x =
     (if y = x then 0 else (let i = Index ys x in if i < 0 then -1 else i + 1))"

text \<open>
  The logging backend is a collaborator: what the logger hands to it is recorded as a
  list of calls. Each call names the backend channel (\<open>Debug()\<close>, \<open>Default()\<close>,
  \<open>Warn()\<close>, \<open>Error()\<close>), the method (\<open>LogF\<close> or \<open>LogFHighlight\<close>), the format string
  and the arguments. An argument is a value of the empty interface type; \<open>anyval\<close> stands
  for it.
\<close>

datatype Channel = ChanDebug | ChanDefault | ChanWarn | ChanError

typedecl anyval

datatype LogCall =
    LogF Channel string "anyval list"
  | LogFHighlight Channel string "anyval list"

text \<open>
  The logger: one stash per level, from group name to the messages pushed under it, and
  the current level. The constructor starts at the info level with empty stashes.
\<close>

record LogboekLogger =
  traceStash :: "string \<rightharpoonup> string list"
  debugStash :: "string \<rightharpoonup> string list"
  infoStash :: "string \<rightharpoonup> string list"
  warnStash :: "string \<rightharpoonup> string list"
  errorStash :: "string \<rightharpoonup> string list"
  level :: Level

definition NewLogboekLogger :: LogboekLogger where
  "NewLogboekLogger =
     \<lparr>traceStash = Map.empty, debugStash = Map.empty, infoStash = Map.empty,
      warnStash = Map.empty, errorStash = Map.empty, level = InfoLevel\<rparr>"

text \<open>
  The table \<open>Levels\<close> that \<open>AcceptLevel\<close> searches is declared in a file that is not
  among the sources; every function that consults it takes it as its first argument.
\<close>

definition AcceptLevel :: "Level list \<Rightarrow> LogboekLogger \<Rightarrow> Level \<Rightarrow> bool" where
  "AcceptLevel Levels l lvl =
     (let lvlI = Index Levels lvl;
          currentLvlI = Index Levels (level l)
      in currentLvlI \<ge> lvlI)"

text \<open>The line feed appended to every format string.\<close>

definition nl :: string where
  "nl = [CHR 0x0A]"

definition Trace :: "Level list \<Rightarrow> LogboekLogger \<Rightarrow> string \<Rightarrow> anyval list \<Rightarrow> LogCall list" where
  "Trace Levels l format a =
     (if \<not> AcceptLevel Levels l TraceLevel then [] else [LogF ChanDebug (format @ nl) a])"

definition Debug :: "Level list \<Rightarrow> LogboekLogger \<Rightarrow> string \<Rightarrow> anyval list \<Rightarrow> LogCall list" where
  "Debug Levels l format a =
     (if \<not> AcceptLevel Levels l DebugLevel then [] else [LogF ChanDebug (format @ nl) a])"

definition Info :: "Level list \<Rightarrow> LogboekLogger \<Rightarrow> string \<Rightarrow> anyval list \<Rightarrow> LogCall list" where
  "Info Levels l format a =
     (if \<not> AcceptLevel Levels l InfoLevel then [] else [LogF ChanDefault (format @ nl) a])"

definition Warn :: "Level list \<Rightarrow> LogboekLogger \<Rightarrow> string \<Rightarrow> anyval list \<Rightarrow> LogCall list" where
  "Warn Levels l format a =
     (if \<not> AcceptLevel Levels l WarningLevel then []
      else [LogFHighlight ChanWarn (format @ nl) a])"

definition Error :: "Level list \<Rightarrow> LogboekLogger \<Rightarrow> string \<Rightarrow> anyval list \<Rightarrow> LogCall list" where
  "Error Levels l format a =
     (if \<not> AcceptLevel Levels l ErrorLevel then []
      else [LogFHighlight ChanError (format @ nl) a])"

text \<open>
  Reading a group of a stash: a missing key reads as the empty slice. \<open>stashPush\<close> is
  the body of every push transaction (\<open>stash[grp] = append(stash[grp], msg)\<close>).
\<close>

definition buffer :: "(string \<rightharpoonup> string list) \<Rightarrow> string \<Rightarrow> string list" where
  "buffer stash grp = (case stash grp of None \<Rightarrow> [] | Some msgs \<Rightarrow> msgs)"

definition stashPush :: "(string \<rightharpoonup> string list) \<Rightarrow> string \<Rightarrow> string \<Rightarrow> (string \<rightharpoonup> string list)" where
  "stashPush stash grp msg = stash(grp \<mapsto> buffer stash grp @ [msg])"

text \<open>
  The push methods format the message (\<open>Sprintf\<close>, a parameter) and append it to the
  grp. The pop methods pass every message of the grp, in order, to the level's log
  method as a format string without arguments, then delete the grp; they return the
  logger and the backend calls made.
\<close>

definition TracePush :: "(string \<Rightarrow> anyval list \<Rightarrow> string) \<Rightarrow> LogboekLogger \<Rightarrow> string \<Rightarrow> string \<Rightarrow> anyval list \<Rightarrow> LogboekLogger" where
  "TracePush Sprintf l grp format a =
     l\<lparr>traceStash := stashPush (traceStash l) grp (Sprintf format a)\<rparr>"

definition TracePop :: "Level list \<Rightarrow> LogboekLogger \<Rightarrow> string \<Rightarrow> LogboekLogger \<times> LogCall list" where
  "TracePop Levels l grp =
     (l\<lparr>traceStash := (traceStash l)(grp := None)\<rparr>,
      concat (map (\<lambda>msg. Trace Levels l msg []) (buffer (traceStash l) grp)))"

definition DebugPush :: "(string \<Rightarrow> anyval list \<Rightarrow> string) \<Rightarrow> LogboekLogger \<Rightarrow> string \<Rightarrow> string \<Rightarrow> anyval list \<Rightarrow> LogboekLogger" where
  "DebugPush Sprintf l grp format a =
     l\<lparr>debugStash := stashPush (debugStash l) grp (Sprintf format a)\<rparr>"

definition DebugPop :: "Level list \<Rightarrow> LogboekLogger \<Rightarrow> string \<Rightarrow> LogboekLogger \<times> LogCall list" where
  "DebugPop Levels l grp =
     (l\<lparr>debugStash := (debugStash l)(grp := None)\<rparr>,
      concat (map (\<lambda>msg. Debug Levels l msg []) (buffer (debugStash l) grp)))"

definition InfoPush :: "(string \<Rightarrow> anyval list \<Rightarrow> string) \<Rightarrow> LogboekLogger \<Rightarrow> string \<Rightarrow> string \<Rightarrow> anyval list \<Rightarrow> LogboekLogger" where
  "InfoPush Sprintf l grp format a =
     l\<lparr>infoStash := stashPush (infoStash l) grp (Sprintf format a)\<rparr>"

definition InfoPop :: "Level list \<Rightarrow> LogboekLogger \<Rightarrow> string \<Rightarrow> LogboekLogger \<times> LogCall list" where
  "InfoPop Levels l grp =
     (l\<lparr>infoStash := (infoStash l)(grp := None)\<rparr>,
      concat (map (\<lambda>msg. Info Levels l msg []) (buffer (infoStash l) grp)))"

definition WarnPush :: "(string \<Rightarrow> anyval list \<Rightarrow> string) \<Rightarrow> LogboekLogger \<Rightarrow> string \<Rightarrow> string \<Rightarrow> anyval list \<Rightarrow> LogboekLogger" where
  "WarnPush Sprintf l grp format a =
     l\<lparr>warnStash := stashPush (warnStash l) grp (Sprintf format a)\<rparr>"

definition WarnPop :: "Level list \<Rightarrow> LogboekLogger \<Rightarrow> string \<Rightarrow> LogboekLogger \<times> LogCall list" where
  "WarnPop Levels l grp =
     (l\<lparr>warnStash := (warnStash l)(grp := None)\<rparr>,
      concat (map (\<lambda>msg. Warn Levels l msg []) (buffer (warnStash l) grp)))"

definition ErrorPush :: "(string \<Rightarrow> anyval list \<Rightarrow> string) \<Rightarrow> LogboekLogger \<Rightarrow> string \<Rightarrow> string \<Rightarrow> anyval list \<Rightarrow> LogboekLogger" where
  "ErrorPush Sprintf l grp format a =
     l\<lparr>errorStash := stashPush (errorStash l) grp (Sprintf format a)\<rparr>"

definition ErrorPop :: "Level list \<Rightarrow> LogboekLogger \<Rightarrow> string \<Rightarrow> LogboekLogger \<times> LogCall list" where
  "ErrorPop Levels l grp =
     (l\<lparr>errorStash := (errorStash l)(grp := None)\<rparr>,
      concat (map (\<lambda>msg. Error Levels l msg []) (buffer (errorStash l) grp)))"

text \<open>
  The five push/pop families under one name each, for statements about all of them:
  the level a family logs at, its stash, its push, its pop, and the backend call that
  stands for one emitted message.
\<close>

datatype Family = FTrace | FDebug | FInfo | FWarn | FError

fun familyLevel :: "Family \<Rightarrow> Level" where
  "familyLevel FTrace = TraceLevel"
| "familyLevel FDebug = DebugLevel"
| "familyLevel FInfo = InfoLevel"
| "familyLevel FWarn = WarningLevel"
| "familyLevel FError = ErrorLevel"

fun familyStash :: "Family \<Rightarrow> LogboekLogger \<Rightarrow> (string \<rightharpoonup> string list)" where
  "familyStash FTrace l = traceStash l"
| "familyStash FDebug l = debugStash l"
| "familyStash FInfo l = infoStash l"
| "familyStash FWarn l = warnStash l"
| "familyStash FError l = errorStash l"

fun Push :: "Family \<Rightarrow> (string \<Rightarrow> anyval list \<Rightarrow> string) \<Rightarrow> LogboekLogger \<Rightarrow> string \<Rightarrow> string \<times> anyval list \<Rightarrow> LogboekLogger" where
  "Push FTrace Sprintf l grp (format, a) = TracePush Sprintf l grp format a"
| "Push FDebug Sprintf l grp (format, a) = DebugPush Sprintf l grp format a"
| "Push FInfo Sprintf l grp (format, a) = InfoPush Sprintf l grp format a"
| "Push FWarn Sprintf l grp (format, a) = WarnPush Sprintf l grp format a"
| "Push FError Sprintf l grp (format, a) = ErrorPush Sprintf l grp format a"

fun Pop :: "Family \<Rightarrow> Level list \<Rightarrow> LogboekLogger \<Rightarrow> string \<Rightarrow> LogboekLogger \<times> LogCall list" where
  "Pop FTrace Levels l grp = TracePop Levels l grp"
| "Pop FDebug Levels l grp = DebugPop Levels l grp"
| "Pop FInfo Levels l grp = InfoPop Levels l grp"
| "Pop FWarn Levels l grp = WarnPop Levels l grp"
| "Pop FError Levels l grp = ErrorPop Levels l grp"

fun emitted :: "Family \<Rightarrow> string \<Rightarrow> LogCall" where
  "emitted FTrace msg = LogF ChanDebug (msg @ nl) []"
| "emitted FDebug msg = LogF ChanDebug (msg @ nl) []"
| "emitted FInfo msg = LogF ChanDefault (msg @ nl) []"
| "emitted FWarn msg = LogFHighlight ChanWarn (msg @ nl) []"
| "emitted FError msg = LogFHighlight ChanError (msg @ nl) []"

text \<open>A sequence of push calls for one grp, each with its format and arguments.\<close>

definition pushes :: "Family \<Rightarrow> (string \<Rightarrow> anyval list \<Rightarrow> string) \<Rightarrow> LogboekLogger \<Rightarrow> string \<Rightarrow> (string \<times> anyval list) list \<Rightarrow> LogboekLogger" where
  "pushes fam Sprintf l grp calls = foldl (\<lambda>l' c. Push fam Sprintf l' grp c) l calls"

text \<open>
  Two orders of the level table for concrete runs: from silent to trace, and the
  reverse.
\<close>

definition levelsSilentFirst :: "Level list" where
  "levelsSilentFirst = [SilentLevel, ErrorLevel, WarningLevel, InfoLevel, DebugLevel, TraceLevel]"

definition levelsTraceFirst :: "Level list" where
  "levelsTraceFirst = [TraceLevel, DebugLevel, InfoLevel, WarningLevel, ErrorLevel, SilentLevel]"

section \<open>Kube client facade (internal/kube)\<close>

text \<open>
  Errors. An error of the cluster API either carries the reason not-found or another
  reason; \<open>Wrapped\<close> is an error built with the wrapping verb around a cause.
  \<open>IsNotFound\<close> looks through the wrapping, as the API machinery's test does.
\<close>

datatype kerror =
    NotFoundError string
  | OtherError string
  | Wrapped string kerror

fun IsNotFound :: "kerror \<Rightarrow> bool" where
  "IsNotFound (NotFoundError _) = True"
| "IsNotFound (OtherError _) = False"
| "IsNotFound (Wrapped _ e) = IsNotFound e"

text \<open>
  The quoting verb of the message formats: the text between double quotes, with a
  backslash before a double quote and a backslash, the short escapes for the control
  characters that have one, and the two-digit hexadecimal escape for every other control
  character. This is exact on ASCII text; the bytes of characters beyond ASCII are kept,
  as the verb keeps every printable character.
\<close>

definition hexDigit :: "nat \<Rightarrow> char" where
  "hexDigit n = ''0123456789abcdef'' ! (n mod 16)"

definition quoteChar :: "char \<Rightarrow> string" where
  "quoteChar ch =
     (if ch = CHR 0x22 then [CHR 0x5C, CHR 0x22]
      else if ch = CHR 0x5C then [CHR 0x5C, CHR 0x5C]
      else if ch = CHR 0x07 then [CHR 0x5C, CHR ''a'']
      else if ch = CHR 0x08 then [CHR 0x5C, CHR ''b'']
      else if ch = CHR 0x0C then [CHR 0x5C, CHR ''f'']
      else if ch = CHR 0x0A then [CHR 0x5C, CHR ''n'']
      else if ch = CHR 0x0D then [CHR 0x5C, CHR ''r'']
      else if ch = CHR 0x09 then [CHR 0x5C, CHR ''t'']
      else if ch = CHR 0x0B then [CHR 0x5C, CHR ''v'']
      else if (of_char ch :: nat) < 32 \<or> ch = CHR 0x7F
        then [CHR 0x5C, CHR ''x'', hexDigit ((of_char ch :: nat) div 16), hexDigit (of_char ch)]
      else [ch])"

definition quoted :: "string \<Rightarrow> string" where
  "quoted s = [CHR 0x22] @ concat (map quoteChar s) @ [CHR 0x22]"

record GroupVersionResource =
  Group :: string
  Version :: string
  Resource :: string

definition GroupResource :: "GroupVersionResource \<Rightarrow> string \<times> string" where
  "GroupResource gvr = (Group gvr, Resource gvr)"

text \<open>
  A resource identity as the facade sees it: the results of the methods it calls on it.
  Resolving the group-version-resource and the scope may fail.
\<close>

record ResourceID =
  Name :: string
  Namespace :: string
  ID :: string
  VersionID :: string
  HumanID :: string
  ResolveGVR :: "kerror + GroupVersionResource"
  Namespaced :: "kerror + bool"

text \<open>
  Requests to the cluster. A request goes to the client of a group-version-resource,
  narrowed to a namespace when the resource is namespaced. Objects are values of any
  type \<open>'o\<close>; a deep copy of a value is the value.
\<close>

type_synonym ResourceInterface = "GroupVersionResource \<times> string option"

definition clientResource :: "GroupVersionResource \<Rightarrow> string \<Rightarrow> bool \<Rightarrow> ResourceInterface" where
  "clientResource gvr ns namespaced = (if namespaced then (gvr, Some ns) else (gvr, None))"

datatype DeletionPropagation =
    DeletePropagationOrphan
  | DeletePropagationBackground
  | DeletePropagationForeground

datatype ApplyOptions =
  ApplyOptions (optDryRun: "string list") (optForce: bool) (optFieldManager: string)

datatype 'o Request =
    ReqGet ResourceInterface string
  | ReqApply ResourceInterface string 'o ApplyOptions
  | ReqMergePatch ResourceInterface string string string
  | ReqDelete ResourceInterface string "DeletionPropagation option"

text \<open>The dry-run directive of the API.\<close>

definition DryRunAll :: string where
  "DryRunAll = ''All''"

text \<open>
  Modelled from the spec: the constant \<open>common.DefaultFieldManager\<close> is declared in a file that
  is not among the sources; the field manager of every server-side apply is "nelm".
\<close>

definition DefaultFieldManager :: string where
  "DefaultFieldManager = ''nelm''"

datatype 'o clusterCacheEntry = clusterCacheEntry (obj: "'o option") (err: "kerror option")

text \<open>
  The client. \<open>dynamicClient\<close> is the cluster behind the transport: its answer to a
  request, given the requests sent before. \<open>requests\<close> is the list of requests sent so
  far, \<open>mapperResets\<close> counts the resets of the REST mapper. The cache is created
  without a time to live and entries are stored with the default one, so an entry stays
  until it is overwritten or deleted: a map. The per-resource mutex is held for the
  whole of each call and has no effect on a single caller; the debug and trace log lines
  are left out.
\<close>

record 'o KubeClient =
  dynamicClient :: "'o Request list \<Rightarrow> 'o Request \<Rightarrow> kerror + 'o"
  requests :: "'o Request list"
  clusterCache :: "string \<rightharpoonup> 'o clusterCacheEntry"
  mapperResets :: nat

definition send :: "'o KubeClient \<Rightarrow> 'o Request \<Rightarrow> (kerror + 'o) \<times> 'o KubeClient" where
  "send c req = (dynamicClient c (requests c) req, c\<lparr>requests := requests c @ [req]\<rparr>)"

definition cacheSet :: "'o KubeClient \<Rightarrow> string \<Rightarrow> 'o clusterCacheEntry \<Rightarrow> 'o KubeClient" where
  "cacheSet c key entry = c\<lparr>clusterCache := (clusterCache c)(key \<mapsto> entry)\<rparr>"

definition cacheDelete :: "'o KubeClient \<Rightarrow> string \<Rightarrow> 'o KubeClient" where
  "cacheDelete c key = c\<lparr>clusterCache := (clusterCache c)(key := None)\<rparr>"

definition mapperReset :: "'o KubeClient \<Rightarrow> 'o KubeClient" where
  "mapperReset c = c\<lparr>mapperResets := Suc (mapperResets c)\<rparr>"

text \<open>
  Every call but a cache hit first resolves the group-version-resource and the scope of
  the resource and returns early when either fails; \<open>resolve\<close> is that common prefix,
  up to the client the request goes to.
\<close>

definition resolve :: "ResourceID \<Rightarrow> kerror + GroupVersionResource \<times> ResourceInterface" where
  "resolve resource =
     (case ResolveGVR resource of
        Inl e \<Rightarrow> Inl (Wrapped ''get GroupVersionResource'' e)
      | Inr gvr \<Rightarrow>
          (case Namespaced resource of
             Inl e \<Rightarrow> Inl (Wrapped ''check if resource is namespaced'' e)
           | Inr namespaced \<Rightarrow> Inr (gvr, clientResource gvr (Namespace resource) namespaced)))"

text \<open>
  A call returns an object and an error: \<open>Inl e\<close> is the error \<open>e\<close> (with a nil object),
  \<open>Inr (Some o)\<close> the object \<open>o\<close> with a nil error, \<open>Inr None\<close> nil and nil.
\<close>

datatype KubeClientGetOptions = KubeClientGetOptions (TryCache: bool)

definition Get :: "'o KubeClient \<Rightarrow> ResourceID \<Rightarrow> KubeClientGetOptions \<Rightarrow> (kerror + 'o option) \<times> 'o KubeClient" where
  "Get c resource opts =
     (case (if TryCache opts then clusterCache c (VersionID resource) else None) of
        Some res \<Rightarrow>
          (case err res of
             Some e \<Rightarrow>
               (Inl (Wrapped (''get resource '' @ quoted (HumanID resource) @ '' from client cache'') e), c)
           | None \<Rightarrow> (Inr (obj res), c))
      | None \<Rightarrow>
          (case resolve resource of
             Inl e \<Rightarrow> (Inl e, c)
           | Inr (gvr, target) \<Rightarrow>
               (case send c (ReqGet target (Name resource)) of
                  (Inl e, c1) \<Rightarrow>
                    (Inl (Wrapped (''get resource '' @ quoted (HumanID resource)) e),
                     cacheSet c1 (VersionID resource) (clusterCacheEntry None (Some e)))
                | (Inr resultObj, c1) \<Rightarrow>
                    (Inr (Some resultObj),
                     cacheSet c1 (VersionID resource) (clusterCacheEntry (Some resultObj) None)))))"

datatype KubeClientCreateOptions = KubeClientCreateOptions (ForceReplicas: "int option")

text \<open>
  \<open>Create\<close> and \<open>Apply\<close> take two helpers that are not among the sources as
  arguments: \<open>IsCRDFromGR\<close>, the test whether a group and resource name a custom
  resource definition, and \<open>SetReplicas\<close>, the object with its nested field
  \<open>spec.replicas\<close> set (the error of that assignment is dropped by the source).
\<close>

definition Create :: "(string \<times> string \<Rightarrow> bool) \<Rightarrow> ('o \<Rightarrow> int \<Rightarrow> 'o) \<Rightarrow> 'o KubeClient \<Rightarrow> ResourceID \<Rightarrow> 'o \<Rightarrow> KubeClientCreateOptions \<Rightarrow> (kerror + 'o option) \<times> 'o KubeClient" where
  "Create IsCRDFromGR SetReplicas c resource unstruct opts =
     (case resolve resource of
        Inl e \<Rightarrow> (Inl e, c)
      | Inr (gvr, target) \<Rightarrow>
          (let unstruct1 = (case ForceReplicas opts of
                              Some n \<Rightarrow> SetReplicas unstruct n
                            | None \<Rightarrow> unstruct)
           in case send c (ReqApply target (Name resource) unstruct1
                             (ApplyOptions [] True DefaultFieldManager)) of
                (Inl e, c1) \<Rightarrow>
                  (Inl (Wrapped (''server-side apply resource '' @ quoted (HumanID resource)) e),
                   cacheSet c1 (VersionID resource) (clusterCacheEntry None (Some e)))
              | (Inr resultObj, c1) \<Rightarrow>
                  (let c2 = cacheSet c1 (VersionID resource) (clusterCacheEntry (Some resultObj) None);
                       c3 = (if IsCRDFromGR (GroupResource gvr) then mapperReset c2 else c2)
                   in (Inr (Some resultObj), c3))))"

datatype KubeClientApplyOptions = KubeClientApplyOptions (DryRun: bool)

definition Apply :: "(string \<times> string \<Rightarrow> bool) \<Rightarrow> 'o KubeClient \<Rightarrow> ResourceID \<Rightarrow> 'o \<Rightarrow> KubeClientApplyOptions \<Rightarrow> (kerror + 'o option) \<times> 'o KubeClient" where
  "Apply IsCRDFromGR c resource unstruct opts =
     (case resolve resource of
        Inl e \<Rightarrow> (Inl e, c)
      | Inr (gvr, target) \<Rightarrow>
          (let dryRun = (if DryRun opts then [DryRunAll] else []);
               word = (if DryRun opts then ''dry-run '' else [])
           in case send c (ReqApply target (Name resource) unstruct
                             (ApplyOptions dryRun True DefaultFieldManager)) of
                (Inl e, c1) \<Rightarrow>
                  (Inl (Wrapped (''server-side '' @ word @ ''apply resource '' @ quoted (HumanID resource)) e),
                   if \<not> DryRun opts
                   then cacheSet c1 (VersionID resource) (clusterCacheEntry None (Some e))
                   else c1)
              | (Inr resultObj, c1) \<Rightarrow>
                  (let c2 = (if \<not> DryRun opts
                             then cacheSet c1 (VersionID resource) (clusterCacheEntry (Some resultObj) None)
                             else c1);
                       c3 = (if IsCRDFromGR (GroupResource gvr) \<and> \<not> DryRun opts
                             then mapperReset c2 else c2)
                   in (Inr (Some resultObj), c3))))"

text \<open>The patch is a byte string; the patch type is always the merge patch.\<close>

definition MergePatch :: "'o KubeClient \<Rightarrow> ResourceID \<Rightarrow> string \<Rightarrow> (kerror + 'o option) \<times> 'o KubeClient" where
  "MergePatch c resource patch =
     (case resolve resource of
        Inl e \<Rightarrow> (Inl e, c)
      | Inr (gvr, target) \<Rightarrow>
          (case send c (ReqMergePatch target (Name resource) patch DefaultFieldManager) of
             (Inl e, c1) \<Rightarrow>
               (if IsNotFound e then (Inr None, c1)
                else (Inl (Wrapped (''merge patch resource '' @ quoted (HumanID resource)) e),
                      cacheSet c1 (VersionID resource) (clusterCacheEntry None (Some e))))
           | (Inr resultObj, c1) \<Rightarrow>
               (Inr (Some resultObj),
                cacheSet c1 (VersionID resource) (clusterCacheEntry (Some resultObj) None))))"

datatype KubeClientDeleteOptions =
  KubeClientDeleteOptions (PropagationPolicy: "DeletionPropagation option")

text \<open>
  \<open>Delete\<close> returns an error or nil (\<open>None\<close>). The answer of the cluster to a delete
  request carries no object: only whether it is an error matters.
\<close>

definition Delete :: "'o KubeClient \<Rightarrow> ResourceID \<Rightarrow> KubeClientDeleteOptions \<Rightarrow> kerror option \<times> 'o KubeClient" where
  "Delete c resource opts =
     (case resolve resource of
        Inl e \<Rightarrow> (Some e, c)
      | Inr (gvr, target) \<Rightarrow>
          (let propagationPolicy = (case PropagationPolicy opts of
                                      Some p \<Rightarrow> Some p
                                    | None \<Rightarrow> Some DeletePropagationForeground)
           in case send c (ReqDelete target (Name resource) propagationPolicy) of
                (Inl e, c1) \<Rightarrow>
                  (if IsNotFound e then (None, c1)
                   else (Some (Wrapped (''delete resource '' @ quoted (HumanID resource)) e), c1))
              | (Inr _, c1) \<Rightarrow> (None, cacheDelete c1 (VersionID resource))))"

text \<open>
  The constructor makes a client with an empty cache; no request has been sent and the
  mapper has not been reset.
\<close>

definition NewKubeClient :: "('o Request list \<Rightarrow> 'o Request \<Rightarrow> kerror + 'o) \<Rightarrow> 'o KubeClient" where
  "NewKubeClient dyn =
     \<lparr>dynamicClient = dyn, requests = [], clusterCache = Map.empty, mapperResets = 0\<rparr>"

text \<open>What the cluster answers to the next request of a client.\<close>

definition answer :: "'o KubeClient \<Rightarrow> 'o Request \<Rightarrow> kerror + 'o" where
  "answer c req = dynamicClient c (requests c) req"

text \<open>
  The request each call sends once the resource is resolved to the client \<open>target\<close>,
  spelled as in the definitions above.
\<close>

definition getRequest :: "ResourceInterface \<Rightarrow> ResourceID \<Rightarrow> 'o Request" where
  "getRequest target resource = ReqGet target (Name resource)"

definition createRequest :: "('o \<Rightarrow> int \<Rightarrow> 'o) \<Rightarrow> ResourceInterface \<Rightarrow> ResourceID \<Rightarrow> 'o \<Rightarrow> KubeClientCreateOptions \<Rightarrow> 'o Request" where
  "createRequest SetReplicas target resource unstruct opts =
     ReqApply target (Name resource)
       (case ForceReplicas opts of Some n \<Rightarrow> SetReplicas unstruct n | None \<Rightarrow> unstruct)
       (ApplyOptions [] True DefaultFieldManager)"

definition applyRequest :: "ResourceInterface \<Rightarrow> ResourceID \<Rightarrow> 'o \<Rightarrow> KubeClientApplyOptions \<Rightarrow> 'o Request" where
  "applyRequest target resource unstruct opts =
     ReqApply target (Name resource) unstruct
       (ApplyOptions (if DryRun opts then [DryRunAll] else []) True DefaultFieldManager)"

definition mergePatchRequest :: "ResourceInterface \<Rightarrow> ResourceID \<Rightarrow> string \<Rightarrow> 'o Request" where
  "mergePatchRequest target resource patch =
     ReqMergePatch target (Name resource) patch DefaultFieldManager"

definition deleteRequest :: "ResourceInterface \<Rightarrow> ResourceID \<Rightarrow> KubeClientDeleteOptions \<Rightarrow> 'o Request" where
  "deleteRequest target resource opts =
     ReqDelete target (Name resource)
       (Some (case PropagationPolicy opts of Some p \<Rightarrow> p | None \<Rightarrow> DeletePropagationForeground))"

text \<open>
  Concrete inputs for running the facade: a namespaced deployment, a custom resource
  definition, and three clusters whose objects are strings: one that answers every
  request with the object "live", one that answers every request with a not-found
  error, and one that holds the object for reads and applies but reports it gone to a
  delete or a patch.
\<close>

definition webDeployment :: ResourceID where
  "webDeployment =
     \<lparr>Name = ''web'', Namespace = ''default'', ID = ''apps:Deployment:default:web'',
      VersionID = ''apps:v1:Deployment:default:web'', HumanID = ''Deployment/web'',
      ResolveGVR = Inr \<lparr>Group = ''apps'', Version = ''v1'', Resource = ''deployments''\<rparr>,
      Namespaced = Inr True\<rparr>"

definition webTarget :: ResourceInterface where
  "webTarget = (\<lparr>Group = ''apps'', Version = ''v1'', Resource = ''deployments''\<rparr>, Some ''default'')"

definition crdGVR :: GroupVersionResource where
  "crdGVR = \<lparr>Group = ''apiextensions.k8s.io'', Version = ''v1'',
             Resource = ''customresourcedefinitions''\<rparr>"

definition widgetCRD :: ResourceID where
  "widgetCRD =
     \<lparr>Name = ''widgets.example.com'', Namespace = [],
      ID = ''apiextensions.k8s.io:CustomResourceDefinition::widgets.example.com'',
      VersionID = ''apiextensions.k8s.io:v1:CustomResourceDefinition::widgets.example.com'',
      HumanID = ''CustomResourceDefinition/widgets.example.com'',
      ResolveGVR = Inr crdGVR, Namespaced = Inr False\<rparr>"

definition isCRDGroupResource :: "string \<times> string \<Rightarrow> bool" where
  "isCRDGroupResource gr = (gr = (''apiextensions.k8s.io'', ''customresourcedefinitions''))"

definition liveCluster :: "string Request list \<Rightarrow> string Request \<Rightarrow> kerror + string" where
  "liveCluster history req = Inr ''live''"

definition emptyCluster :: "string Request list \<Rightarrow> string Request \<Rightarrow> kerror + string" where
  "emptyCluster history req = Inl (NotFoundError ''not found'')"

definition vanishingCluster :: "string Request list \<Rightarrow> string Request \<Rightarrow> kerror + string" where
  "vanishingCluster history req =
     (case req of
        ReqDelete _ _ _ \<Rightarrow> Inl (NotFoundError ''not found'')
      | ReqMergePatch _ _ _ _ \<Rightarrow> Inl (NotFoundError ''not found'')
      | _ \<Rightarrow> Inr ''live'')"

text \<open>A client that has read the deployment from the vanishing cluster and cached it.\<close>

definition clientAfterRead :: "string KubeClient" where
  "clientAfterRead =
     snd (Get (NewKubeClient vanishingCluster) webDeployment (KubeClientGetOptions False))"

text \<open>
  Two more inputs: a cluster that answers every request with an error that is not a
  not-found, and a resource whose kind the mapper does not know.
\<close>

definition failingCluster :: "string Request list \<Rightarrow> string Request \<Rightarrow> kerror + string" where
  "failingCluster history req = Inl (OtherError ''connection refused'')"

definition unmappedResource :: ResourceID where
  "unmappedResource =
     \<lparr>Name = ''gadget'', Namespace = ''default'', ID = ''example.com:Gadget:default:gadget'',
      VersionID = ''example.com:v1:Gadget:default:gadget'', HumanID = ''Gadget/gadget'',
      ResolveGVR = Inl (OtherError ''no matches for kind''), Namespaced = Inr True\<rparr>"

section \<open>Operations (internal/plan/operation)\<close>

text \<open>
  The status and the kind of an operation. Both are string types with a fixed set of
  constants; the kinds are those of the operation taxonomy.
\<close>

datatype OperationStatus =
    OperationStatusUnknown
  | OperationStatusCompleted
  | OperationStatusFailed

datatype OperationType =
    TypeCreateResourceOperation
  | TypeRecreateResourceOperation
  | TypeUpdateResourceOperation
  | TypeApplyResourceOperation
  | TypeDeleteResourceOperation
  | TypeExtraPostCreateResourceOperation
  | TypeExtraPostRecreateResourceOperation
  | TypeExtraPostApplyResourceOperation
  | TypeExtraPostUpdateResourceOperation
  | TypeExtraPostDeleteResourceOperation
  | TypeTrackResourceReadinessOperation
  | TypeTrackResourcePresenceOperation
  | TypeTrackResourceAbsenceOperation
  | TypeStageOperation
  | TypeFailReleaseOperation
  | TypeSucceedReleaseOperation
  | TypeSupersedePreviousReleaseOperation

text \<open>
  The apply operation, with the fields of the source but the client: the resource, the
  manifest, the policy token, the extra-post flag and the status.
\<close>

record 'o ApplyResourceOperation =
  resource :: ResourceID
  unstruct :: 'o
  manageableBy :: string
  extraPost :: bool
  applyStatus :: OperationStatus

text \<open>
  Modelled from the spec: the stage operation is declared in a file that is not among
  the sources. A stage marker is built from its identifier (\<open>NewStageOperation\<close>; the
  identifiers have the form \<open>stage/<name>\<close>), and \<open>ID\<close> returns that identifier: the
  plan looks a marker up, creates it and links it under one and the same string. A
  marker does no work, its kind is the stage marker and it is always empty.
\<close>

record StageOperation =
  stageID :: string
  stageStatus :: OperationStatus


text \<open>
  Every other implementation of the operation interface is declared in files that are
  not among the sources; the plan only calls its methods, so it is given by their results.
\<close>

record OtherOperation =
  otherID :: string
  otherType :: OperationType
  otherStatus :: OperationStatus
  otherEmpty :: bool

datatype 'o Operation =
    OpApply "'o ApplyResourceOperation"
  | OpStage StageOperation
  | OpOther OtherOperation

text \<open>The methods of the interface that the plan calls.\<close>

fun opID :: "'o Operation \<Rightarrow> string" where
  "opID (OpApply o') =
     (if extraPost o' then ''extra-post-apply'' @ ''/'' @ ID (resource o')
      else ''apply'' @ ''/'' @ ID (resource o'))"
| "opID (OpStage s) = stageID s"
| "opID (OpOther x) = otherID x"

fun opStatus :: "'o Operation \<Rightarrow> OperationStatus" where
  "opStatus (OpApply o') = applyStatus o'"
| "opStatus (OpStage s) = stageStatus s"
| "opStatus (OpOther x) = otherStatus x"

fun opType :: "'o Operation \<Rightarrow> OperationType" where
  "opType (OpApply o') =
     (if extraPost o' then TypeExtraPostApplyResourceOperation else TypeApplyResourceOperation)"
| "opType (OpStage s) = TypeStageOperation"
| "opType (OpOther x) = otherType x"

fun opEmpty :: "'o Operation \<Rightarrow> bool" where
  "opEmpty (OpApply o') = False"
| "opEmpty (OpStage s) = True"
| "opEmpty (OpOther x) = otherEmpty x"

section \<open>Plan graph (internal/plan)\<close>

text \<open>
  The graph is the directed-graph collaborator, created with the traits directed,
  acyclic and prevent-cycles and hashed by the operation's \<open>ID\<close>. It is modelled by its
  contract: vertices by hash and edges as pairs, both in insertion order;
  \<open>AddVertex\<close> refuses a hash that is present; \<open>AddEdge\<close> checks, in this order, that
  both ends are present, that the edge is new, and that it closes no cycle (the edge
  is a self-loop, or its target already reaches its source), and changes nothing when
  it refuses.
\<close>

datatype GraphError =
    ErrVertexNotFound
  | ErrVertexAlreadyExists
  | ErrEdgeAlreadyExists
  | ErrEdgeCreatesCycle

record 'o Graph =
  vertices :: "(string \<times> 'o Operation) list"
  edges :: "(string \<times> string) list"

definition Vertex :: "'o Graph \<Rightarrow> string \<Rightarrow> GraphError + 'o Operation" where
  "Vertex g hash =
     (case map_of (vertices g) hash of None \<Rightarrow> Inl ErrVertexNotFound | Some v \<Rightarrow> Inr v)"

definition AddVertex :: "'o Graph \<Rightarrow> 'o Operation \<Rightarrow> GraphError + 'o Graph" where
  "AddVertex g v =
     (case map_of (vertices g) (opID v) of
        Some _ \<Rightarrow> Inl ErrVertexAlreadyExists
      | None \<Rightarrow> Inr (g\<lparr>vertices := vertices g @ [(opID v, v)]\<rparr>))"

definition CreatesCycle :: "'o Graph \<Rightarrow> string \<Rightarrow> string \<Rightarrow> bool" where
  "CreatesCycle g source target = (source = target \<or> (target, source) \<in> (set (edges g))\<^sup>+)"

definition AddEdge :: "'o Graph \<Rightarrow> string \<Rightarrow> string \<Rightarrow> GraphError + 'o Graph" where
  "AddEdge g source target =
     (case Vertex g source of
        Inl e \<Rightarrow> Inl e
      | Inr _ \<Rightarrow>
          (case Vertex g target of
             Inl e \<Rightarrow> Inl e
           | Inr _ \<Rightarrow>
               if (source, target) \<in> set (edges g) then Inl ErrEdgeAlreadyExists
               else if CreatesCycle g source target then Inl ErrEdgeCreatesCycle
               else Inr (g\<lparr>edges := edges g @ [(source, target)]\<rparr>)))"

text \<open>The keys of the adjacency map: every vertex hash.\<close>

definition AdjacencyMapKeys :: "'o Graph \<Rightarrow> string list" where
  "AdjacencyMapKeys g = map fst (vertices g)"

text \<open>
  A call of the plan returns a value, returns an error, or panics. \<open>Panic\<close> is a panic
  with its message, \<open>EdgeError\<close> the error \<open>AddDependency\<close> returns around the graph's.
\<close>

datatype PlanError =
    Panic string
  | EdgeError string string GraphError

record 'o Plan =
  graph :: "'o Graph"

definition NewPlan :: "'o Plan" where
  "NewPlan = \<lparr>graph = \<lparr>vertices = [], edges = []\<rparr>\<rparr>"

text \<open>
  \<open>Operation\<close> formats the identifier it is given before the lookup (\<open>Sprintf\<close>, a
  parameter of every function that reaches it); the result is the vertex, or \<open>None\<close>
  when it is not found.
\<close>

definition Operation :: "(string \<Rightarrow> anyval list \<Rightarrow> string) \<Rightarrow> 'o Plan \<Rightarrow> string \<Rightarrow> anyval list \<Rightarrow> PlanError + 'o Operation option" where
  "Operation Sprintf p idFormat a =
     (let opID' = Sprintf idFormat a
      in case Vertex (graph p) opID' of
           Inl e \<Rightarrow>
             if e = ErrVertexNotFound then Inr None else Inl (Panic ''unexpected error'')
         | Inr vertex \<Rightarrow> Inr (Some vertex))"

text \<open>
  \<open>Operations\<close> walks the keys of the adjacency map and looks every one up with
  \<open>Operation\<close>, panicking when a lookup does not find its key. The order of the walk is
  not fixed by the source (it ranges over a map); the model walks in insertion order,
  and the results below speak of the set of operations returned.
\<close>

fun lookupAll :: "(string \<Rightarrow> anyval list \<Rightarrow> string) \<Rightarrow> 'o Plan \<Rightarrow> string list \<Rightarrow> PlanError + 'o Operation list" where
  "lookupAll Sprintf p [] = Inr []"
| "lookupAll Sprintf p (k # ks) =
     (case Operation Sprintf p k [] of
        Inl e \<Rightarrow> Inl e
      | Inr None \<Rightarrow> Inl (Panic ''not ok'')
      | Inr (Some op) \<Rightarrow>
          (case lookupAll Sprintf p ks of
             Inl e \<Rightarrow> Inl e
           | Inr ops \<Rightarrow> Inr (op # ops)))"

definition Operations :: "(string \<Rightarrow> anyval list \<Rightarrow> string) \<Rightarrow> 'o Plan \<Rightarrow> PlanError + 'o Operation list \<times> bool" where
  "Operations Sprintf p =
     (case lookupAll Sprintf p (AdjacencyMapKeys (graph p)) of
        Inl e \<Rightarrow> Inl e
      | Inr operations \<Rightarrow> Inr (operations, length operations > 0))"

definition CompletedOperations :: "(string \<Rightarrow> anyval list \<Rightarrow> string) \<Rightarrow> 'o Plan \<Rightarrow> PlanError + 'o Operation list \<times> bool" where
  "CompletedOperations Sprintf p =
     (case Operations Sprintf p of
        Inl e \<Rightarrow> Inl e
      | Inr (ops, found) \<Rightarrow>
          if \<not> found then Inr ([], False)
          else (let completedOps = filter (\<lambda>op. opStatus op = OperationStatusCompleted) ops
                in Inr (completedOps, length completedOps > 0)))"

definition FailedOperations :: "(string \<Rightarrow> anyval list \<Rightarrow> string) \<Rightarrow> 'o Plan \<Rightarrow> PlanError + 'o Operation list \<times> bool" where
  "FailedOperations Sprintf p =
     (case Operations Sprintf p of
        Inl e \<Rightarrow> Inl e
      | Inr (ops, found) \<Rightarrow>
          if \<not> found then Inr ([], False)
          else (let failedOps = filter (\<lambda>op. opStatus op = OperationStatusFailed) ops
                in Inr (failedOps, length failedOps > 0)))"

definition CanceledOperations :: "(string \<Rightarrow> anyval list \<Rightarrow> string) \<Rightarrow> 'o Plan \<Rightarrow> PlanError + 'o Operation list \<times> bool" where
  "CanceledOperations Sprintf p =
     (case Operations Sprintf p of
        Inl e \<Rightarrow> Inl e
      | Inr (ops, found) \<Rightarrow>
          if \<not> found then Inr ([], False)
          else (let canceledOps = filter (\<lambda>op. opStatus op = OperationStatusUnknown) ops
                in Inr (canceledOps, length canceledOps > 0)))"

text \<open>The switch of \<open>WorthyCompletedOperations\<close>: ten kinds are kept.\<close>

fun worthyCompletedType :: "OperationType \<Rightarrow> bool" where
  "worthyCompletedType TypeCreateResourceOperation = True"
| "worthyCompletedType TypeRecreateResourceOperation = True"
| "worthyCompletedType TypeUpdateResourceOperation = True"
| "worthyCompletedType TypeApplyResourceOperation = True"
| "worthyCompletedType TypeDeleteResourceOperation = True"
| "worthyCompletedType TypeExtraPostCreateResourceOperation = True"
| "worthyCompletedType TypeExtraPostRecreateResourceOperation = True"
| "worthyCompletedType TypeExtraPostApplyResourceOperation = True"
| "worthyCompletedType TypeExtraPostUpdateResourceOperation = True"
| "worthyCompletedType TypeExtraPostDeleteResourceOperation = True"
| "worthyCompletedType _ = False"

definition WorthyCompletedOperations :: "(string \<Rightarrow> anyval list \<Rightarrow> string) \<Rightarrow> 'o Plan \<Rightarrow> PlanError + 'o Operation list \<times> bool" where
  "WorthyCompletedOperations Sprintf p =
     (case CompletedOperations Sprintf p of
        Inl e \<Rightarrow> Inl e
      | Inr (completedOps, found) \<Rightarrow>
          if \<not> found then Inr ([], False)
          else (let worthyCompletedOps = filter (\<lambda>op. worthyCompletedType (opType op)) completedOps
                in Inr (worthyCompletedOps, length worthyCompletedOps > 0)))"

text \<open>The loop of \<open>WorthyFailedOperations\<close> has no switch: every failed operation is kept.\<close>

definition WorthyFailedOperations :: "(string \<Rightarrow> anyval list \<Rightarrow> string) \<Rightarrow> 'o Plan \<Rightarrow> PlanError + 'o Operation list \<times> bool" where
  "WorthyFailedOperations Sprintf p =
     (case FailedOperations Sprintf p of
        Inl e \<Rightarrow> Inl e
      | Inr (failedOps, found) \<Rightarrow>
          if \<not> found then Inr ([], False)
          else (let worthyFailedOps = filter (\<lambda>op. True) failedOps
                in Inr (worthyFailedOps, length worthyFailedOps > 0)))"

text \<open>The switch of \<open>WorthyCanceledOperations\<close>: five kinds are kept.\<close>

fun worthyCanceledType :: "OperationType \<Rightarrow> bool" where
  "worthyCanceledType TypeCreateResourceOperation = True"
| "worthyCanceledType TypeRecreateResourceOperation = True"
| "worthyCanceledType TypeUpdateResourceOperation = True"
| "worthyCanceledType TypeApplyResourceOperation = True"
| "worthyCanceledType TypeDeleteResourceOperation = True"
| "worthyCanceledType _ = False"

definition WorthyCanceledOperations :: "(string \<Rightarrow> anyval list \<Rightarrow> string) \<Rightarrow> 'o Plan \<Rightarrow> PlanError + 'o Operation list \<times> bool" where
  "WorthyCanceledOperations Sprintf p =
     (case CanceledOperations Sprintf p of
        Inl e \<Rightarrow> Inl e
      | Inr (canceledOps, found) \<Rightarrow>
          if \<not> found then Inr ([], False)
          else (let worthyCanceledOps = filter (\<lambda>op. worthyCanceledType (opType op)) canceledOps
                in Inr (worthyCanceledOps, length worthyCanceledOps > 0)))"

definition AddOperation :: "'o Plan \<Rightarrow> 'o Operation \<Rightarrow> PlanError + 'o Plan" where
  "AddOperation p op =
     (case AddVertex (graph p) op of
        Inl e \<Rightarrow> if e \<noteq> ErrVertexAlreadyExists then Inl (Panic ''unexpected error'') else Inr p
      | Inr g \<Rightarrow> Inr (p\<lparr>graph := g\<rparr>))"

text \<open>
  \<open>AddDependency\<close> returns an error or nil, and the plan: the plan is the one it was
  given unless the edge was added.
\<close>

definition AddDependency :: "'o Plan \<Rightarrow> string \<Rightarrow> string \<Rightarrow> PlanError option \<times> 'o Plan" where
  "AddDependency p fromOpID toOpID =
     (case AddEdge (graph p) fromOpID toOpID of
        Inl e \<Rightarrow>
          if e = ErrEdgeAlreadyExists then (None, p)
          else (Some (EdgeError fromOpID toOpID e), p)
      | Inr g \<Rightarrow> (None, p\<lparr>graph := g\<rparr>))"




text \<open>The switch of \<open>Useless\<close>: the kinds whose emptiness is looked at.\<close>

fun affectsResources :: "OperationType \<Rightarrow> bool" where
  "affectsResources TypeCreateResourceOperation = True"
| "affectsResources TypeRecreateResourceOperation = True"
| "affectsResources TypeUpdateResourceOperation = True"
| "affectsResources TypeApplyResourceOperation = True"
| "affectsResources TypeDeleteResourceOperation = True"
| "affectsResources TypeFailReleaseOperation = True"
| "affectsResources TypeTrackResourceReadinessOperation = True"
| "affectsResources TypeTrackResourcePresenceOperation = True"
| "affectsResources TypeTrackResourceAbsenceOperation = True"
| "affectsResources TypeExtraPostCreateResourceOperation = True"
| "affectsResources TypeExtraPostRecreateResourceOperation = True"
| "affectsResources TypeExtraPostApplyResourceOperation = True"
| "affectsResources TypeExtraPostUpdateResourceOperation = True"
| "affectsResources TypeExtraPostDeleteResourceOperation = True"
| "affectsResources _ = False"

fun uselessLoop :: "'o Operation list \<Rightarrow> bool" where
  "uselessLoop [] = True"
| "uselessLoop (op # ops) =
     (if affectsResources (opType op) then (if \<not> opEmpty op then False else uselessLoop ops)
      else uselessLoop ops)"

definition Useless :: "(string \<Rightarrow> anyval list \<Rightarrow> string) \<Rightarrow> 'o Plan \<Rightarrow> PlanError + bool" where
  "Useless Sprintf p =
     (case Operations Sprintf p of
        Inl e \<Rightarrow> Inl e
      | Inr (ops, found) \<Rightarrow> if \<not> found then Inr True else Inr (uselessLoop ops))"

text \<open>
  A sequence of \<open>AddOperation\<close> and \<open>AddDependency\<close> calls on a plan. The run succeeds
  when no call panics and no call returns an error; it stops at the first that does.
\<close>

datatype 'o PlanCall =
    CallAddOperation "'o Operation"
  | CallAddDependency string string

fun runCalls :: "'o Plan \<Rightarrow> 'o PlanCall list \<Rightarrow> PlanError + 'o Plan" where
  "runCalls p [] = Inr p"
| "runCalls p (CallAddOperation op # calls) =
     (case AddOperation p op of Inl e \<Rightarrow> Inl e | Inr p' \<Rightarrow> runCalls p' calls)"
| "runCalls p (CallAddDependency a b # calls) =
     (case AddDependency p a b of
        (Some e, _) \<Rightarrow> Inl e
      | (None, p') \<Rightarrow> runCalls p' calls)"

text \<open>
  Identifiers that the formatting of \<open>Operation\<close> leaves as they are (no formatting
  verb in them).
\<close>

definition plainID :: "(string \<Rightarrow> anyval list \<Rightarrow> string) \<Rightarrow> string \<Rightarrow> bool" where
  "plainID Sprintf ident = (Sprintf ident [] = ident)"

text \<open>The operations of a plan, as a set: the vertices its hashes lead to.\<close>

definition planOperations :: "'o Plan \<Rightarrow> 'o Operation set" where
  "planOperations p = ran (map_of (vertices (graph p)))"

text \<open>Every vertex hash of the plan is left as it is by the formatting of \<open>Operation\<close>.\<close>

definition plainIDs :: "(string \<Rightarrow> anyval list \<Rightarrow> string) \<Rightarrow> 'o Plan \<Rightarrow> bool" where
  "plainIDs Sprintf p = list_all (plainID Sprintf) (AdjacencyMapKeys (graph p))"

text \<open>
  Concrete inputs for running the plan: a formatting that leaves a string without
  arguments as it is, a failed readiness tracker, an apply operation on the deployment,
  and the plans holding one of them.
\<close>

definition noVerbs :: "string \<Rightarrow> anyval list \<Rightarrow> string" where
  "noVerbs format a = format"

definition failedTracker :: "string Operation" where
  "failedTracker =
     OpOther \<lparr>otherID = ''track-readiness/apps:Deployment:default:web'',
              otherType = TypeTrackResourceReadinessOperation,
              otherStatus = OperationStatusFailed, otherEmpty = False\<rparr>"

definition applyWeb :: "string Operation" where
  "applyWeb =
     OpApply \<lparr>resource = webDeployment, unstruct = ''manifest'', manageableBy = ''anyone'',
              extraPost = False, applyStatus = OperationStatusUnknown\<rparr>"

definition planWithFailedTracker :: "string Plan" where
  "planWithFailedTracker = \<lparr>graph = \<lparr>vertices = [(opID failedTracker, failedTracker)], edges = []\<rparr>\<rparr>"

definition planWithApply :: "string Plan" where
  "planWithApply = \<lparr>graph = \<lparr>vertices = [(opID applyWeb, applyWeb)], edges = []\<rparr>\<rparr>"

text \<open>
  A plan after a failed run: the apply of the deployment completed, its readiness
  tracker failed, a delete was never started, and a stage marker completed.
\<close>

definition appliedWeb :: "string Operation" where
  "appliedWeb =
     OpApply \<lparr>resource = webDeployment, unstruct = ''manifest'', manageableBy = ''anyone'',
              extraPost = False, applyStatus = OperationStatusCompleted\<rparr>"

definition canceledDelete :: "string Operation" where
  "canceledDelete =
     OpOther \<lparr>otherID = ''delete/apps:Deployment:default:old'',
              otherType = TypeDeleteResourceOperation,
              otherStatus = OperationStatusUnknown, otherEmpty = False\<rparr>"

definition completedStage :: "string Operation" where
  "completedStage = OpStage \<lparr>stageID = ''stage/install/start'', stageStatus = OperationStatusCompleted\<rparr>"

definition planAfterFailure :: "string Plan" where
  "planAfterFailure =
     \<lparr>graph = \<lparr>vertices = [(opID completedStage, completedStage), (opID appliedWeb, appliedWeb),
                            (opID failedTracker, failedTracker),
                            (opID canceledDelete, canceledDelete)],
                edges = [(opID completedStage, opID appliedWeb),
                         (opID appliedWeb, opID failedTracker)]\<rparr>\<rparr>"


text \<open>The plan in which the deployment's apply and its tracker are linked in this order.\<close>

definition planApplyThenTrack :: "string Plan" where
  "planApplyThenTrack =
     \<lparr>graph = \<lparr>vertices = [(opID applyWeb, applyWeb), (opID failedTracker, failedTracker)],
                edges = [(opID applyWeb, opID failedTracker)]\<rparr>\<rparr>"

section \<open>Release: results\<close>

text \<open>
  C8. \<open>Succeeded\<close> is true exactly for the statuses deployed, superseded and uninstalled;
  \<open>Failed\<close> is true exactly for failed, unknown, pending-install, pending-upgrade,
  pending-rollback and uninstalling; a skipped release is in neither set.
\<close>

theorem C8_succeeded_failed_sets:
  "Succeeded r = (status r \<in> {StatusDeployed, StatusSuperseded, StatusUninstalled})
   \<and> Failed r = (status r \<in> {StatusFailed, StatusUnknown, StatusPendingInstall,
                              StatusPendingUpgrade, StatusPendingRollback, StatusUninstalling})
   \<and> \<not> Succeeded (r\<lparr>status := StatusSkipped\<rparr>)
   \<and> \<not> Failed (r\<lparr>status := StatusSkipped\<rparr>)"
  by (cases "status r") (simp_all add: Succeeded_def Failed_def)


text \<open>
  C2 (as stated) fails: on a fresh release (status unknown, both timestamps zero)
  \<open>Fail\<close> leaves the status unknown behind but sets neither timestamp.
\<close>

theorem C2_fail_sets_no_timestamp:
  "status freshRelease = StatusUnknown
   \<and> status (Fail freshRelease) = StatusFailed
   \<and> IsZero (firstDeployed (Fail freshRelease))
   \<and> IsZero (lastDeployed (Fail freshRelease))"
  by (simp add: freshRelease_def Fail_def IsZero_def)

text \<open>
  C2 (amended). Only \<open>Pend\<close> touches the timestamps: it sets \<open>firstDeployed\<close> to the
  current time when \<open>firstDeployed\<close> is still the zero time (whatever the status was),
  keeps it otherwise, and always sets \<open>lastDeployed\<close> to the current time. \<open>Fail\<close>,
  \<open>Succeed\<close>, \<open>Supersede\<close> and \<open>Skip\<close> change the status only and leave both timestamps
  as they were.
\<close>

theorem C2_timestamps_of_transitions:
  "firstDeployed (Pend now d r) = (if IsZero (firstDeployed r) then now else firstDeployed r)
   \<and> lastDeployed (Pend now d r) = now
   \<and> Fail r = r\<lparr>status := StatusFailed\<rparr>
   \<and> Succeed r = r\<lparr>status := StatusDeployed\<rparr>
   \<and> Supersede r = r\<lparr>status := StatusSuperseded\<rparr>
   \<and> Skip r = r\<lparr>status := StatusSkipped\<rparr>
   \<and> firstDeployed (Fail r) = firstDeployed r \<and> lastDeployed (Fail r) = lastDeployed r
   \<and> firstDeployed (Succeed r) = firstDeployed r \<and> lastDeployed (Succeed r) = lastDeployed r
   \<and> firstDeployed (Supersede r) = firstDeployed r \<and> lastDeployed (Supersede r) = lastDeployed r
   \<and> firstDeployed (Skip r) = firstDeployed r \<and> lastDeployed (Skip r) = lastDeployed r"
  by (cases d) (simp_all add: Pend_def Fail_def Succeed_def Supersede_def Skip_def Let_def)

section \<open>Logger: results\<close>

lemma familyStash_Push_other:
  "fam' \<noteq> fam \<or> g' \<noteq> g \<Longrightarrow> familyStash fam' (Push fam S l g c) g' = familyStash fam' l g'"
  by (cases fam; cases fam'; cases c)
     (auto simp: TracePush_def DebugPush_def InfoPush_def WarnPush_def ErrorPush_def stashPush_def)

lemma buffer_Push:
  "buffer (familyStash fam (Push fam S l g c)) g = buffer (familyStash fam l) g @ [S (fst c) (snd c)]"
  by (cases fam; cases c)
     (simp_all add: TracePush_def DebugPush_def InfoPush_def WarnPush_def ErrorPush_def
        stashPush_def buffer_def)

lemma level_Push: "level (Push fam S l g c) = level l"
  by (cases fam; cases c)
     (simp_all add: TracePush_def DebugPush_def InfoPush_def WarnPush_def ErrorPush_def)

lemma familyStash_pushes_other:
  "fam' \<noteq> fam \<or> g' \<noteq> g \<Longrightarrow> familyStash fam' (pushes fam S l g calls) g' = familyStash fam' l g'"
  unfolding pushes_def
  by (induction calls arbitrary: l) (simp_all add: familyStash_Push_other)

lemma buffer_pushes:
  "buffer (familyStash fam (pushes fam S l g calls)) g
     = buffer (familyStash fam l) g @ map (\<lambda>c. S (fst c) (snd c)) calls"
  unfolding pushes_def
  by (induction calls arbitrary: l) (simp_all add: buffer_Push)

lemma level_pushes: "level (pushes fam S l g calls) = level l"
  unfolding pushes_def
  by (induction calls arbitrary: l) (simp_all add: level_Push)

lemma snd_Pop:
  "snd (Pop fam Levels l g) =
     (if AcceptLevel Levels l (familyLevel fam) then map (emitted fam) (buffer (familyStash fam l) g) else [])"
  by (cases fam)
     (simp_all add: TracePop_def DebugPop_def InfoPop_def WarnPop_def ErrorPop_def
        Trace_def Debug_def Info_def Warn_def Error_def)

lemma familyStash_Pop:
  "familyStash fam' (fst (Pop fam Levels l g)) g' =
     (if fam' = fam \<and> g' = g then None else familyStash fam' l g')"
  by (cases fam; cases fam')
     (simp_all add: TracePop_def DebugPop_def InfoPop_def WarnPop_def ErrorPop_def)

lemma level_Pop: "level (fst (Pop fam Levels l g)) = level l"
  by (cases fam)
     (simp_all add: TracePop_def DebugPop_def InfoPop_def WarnPop_def ErrorPop_def)

lemma AcceptLevel_level: "level l' = level l \<Longrightarrow> AcceptLevel Levels l' lvl = AcceptLevel Levels l lvl"
  by (simp add: AcceptLevel_def)

text \<open>
  C9 (amended). For each of the five push/pop families, every group \<open>g\<close> and every
  sequence of push calls for \<open>g\<close>: the pop for \<open>g\<close> hands the messages accumulated under
  \<open>g\<close>, in the order they were pushed, to the family's log method, which emits them only
  when the logger's current level accepts the family's level (otherwise nothing is
  emitted); the pop removes the group in both cases, so a second pop of \<open>g\<close> emits
  nothing; pushing to (and popping) one group leaves every other group of every family
  as it was.
\<close>

theorem C9_pop_emits_when_level_accepts:
  "(let l1 = pushes fam Sprintf l g calls;
        l2 = fst (Pop fam Levels l1 g)
    in snd (Pop fam Levels l1 g) =
         (if AcceptLevel Levels l (familyLevel fam)
          then map (emitted fam)
                 (buffer (familyStash fam l) g @ map (\<lambda>c. Sprintf (fst c) (snd c)) calls)
          else [])
       \<and> familyStash fam l2 g = None
       \<and> snd (Pop fam Levels l2 g) = []
       \<and> (fam' \<noteq> fam \<or> g' \<noteq> g \<longrightarrow>
            familyStash fam' l1 g' = familyStash fam' l g'
            \<and> familyStash fam' l2 g' = familyStash fam' l g'))"
proof -
  let ?l1 = "pushes fam Sprintf l g calls"
  let ?l2 = "fst (Pop fam Levels ?l1 g)"
  have emitted_all: "snd (Pop fam Levels ?l1 g) =
         (if AcceptLevel Levels l (familyLevel fam)
          then map (emitted fam)
                 (buffer (familyStash fam l) g @ map (\<lambda>c. Sprintf (fst c) (snd c)) calls)
          else [])"
    by (simp add: snd_Pop buffer_pushes AcceptLevel_level[OF level_pushes])
  have removed: "familyStash fam ?l2 g = None"
    by (simp add: familyStash_Pop)
  then have again: "snd (Pop fam Levels ?l2 g) = []"
    by (simp add: snd_Pop buffer_def)
  have others: "fam' \<noteq> fam \<or> g' \<noteq> g \<longrightarrow>
            familyStash fam' ?l1 g' = familyStash fam' l g'
            \<and> familyStash fam' ?l2 g' = familyStash fam' l g'"
    by (auto simp: familyStash_Pop familyStash_pushes_other)
  show ?thesis
    unfolding Let_def using emitted_all removed again others by blast
qed

theorem C9_pop_emits_when_level_accepts_witness:
  "snd (InfoPop levelsSilentFirst
         (InfoPush noVerbs (InfoPush noVerbs NewLogboekLogger ''g'' ''one'' []) ''g'' ''two'' [])
         ''g'')
     = [LogF ChanDefault (''one'' @ nl) [], LogF ChanDefault (''two'' @ nl) []]
   \<and> FWarn \<noteq> FInfo
   \<and> warnStash
        (InfoPush noVerbs (InfoPush noVerbs NewLogboekLogger ''g'' ''one'' []) ''g'' ''two'' [])
        ''g''
      = warnStash NewLogboekLogger ''g''"
  using C9_pop_emits_when_level_accepts
          [of FInfo noVerbs NewLogboekLogger "''g''" "[(''one'', []), (''two'', [])]"
              levelsSilentFirst FWarn "''g''"]
  by (simp add: Let_def AcceptLevel_def levelsSilentFirst_def NewLogboekLogger_def buffer_def
        pushes_def noVerbs_def)

text \<open>
  C9 (as stated) fails: on a new logger (level info) one message is pushed in the debug
  family and the pop emits nothing, with the level table ordered from silent to trace;
  with the table in the reverse order the same happens in the warn family.
\<close>

theorem C9_pop_at_default_level_emits_nothing:
  "buffer (debugStash (DebugPush noVerbs NewLogboekLogger ''g'' ''m'' [])) ''g'' = [''m'']
   \<and> snd (DebugPop levelsSilentFirst (DebugPush noVerbs NewLogboekLogger ''g'' ''m'' []) ''g'') = []
   \<and> buffer (warnStash (WarnPush noVerbs NewLogboekLogger ''g'' ''m'' [])) ''g'' = [''m'']
   \<and> snd (WarnPop levelsTraceFirst (WarnPush noVerbs NewLogboekLogger ''g'' ''m'' []) ''g'') = []"
  by (simp add: DebugPush_def WarnPush_def DebugPop_def WarnPop_def stashPush_def
        buffer_def NewLogboekLogger_def Debug_def Warn_def AcceptLevel_def
        levelsSilentFirst_def levelsTraceFirst_def noVerbs_def)

section \<open>Kube client: results\<close>



lemma Create_resolved:
  "resolve r = Inr (gvr, target) \<Longrightarrow>
   Create isCRD setR c r u co =
     (case answer c (createRequest setR target r u co) of
        Inl e \<Rightarrow>
          (Inl (Wrapped (''server-side apply resource '' @ quoted (HumanID r)) e),
           cacheSet (c\<lparr>requests := requests c @ [createRequest setR target r u co]\<rparr>)
             (VersionID r) (clusterCacheEntry None (Some e)))
      | Inr resultObj \<Rightarrow>
          (Inr (Some resultObj),
           (if isCRD (GroupResource gvr) then mapperReset else id)
             (cacheSet (c\<lparr>requests := requests c @ [createRequest setR target r u co]\<rparr>)
                (VersionID r) (clusterCacheEntry (Some resultObj) None))))"
  by (auto simp: Create_def answer_def createRequest_def send_def Let_def split: sum.splits)


lemma MergePatch_resolved:
  "resolve r = Inr (gvr, target) \<Longrightarrow>
   MergePatch c r patch =
     (case answer c (mergePatchRequest target r patch) of
        Inl e \<Rightarrow>
          if IsNotFound e
          then (Inr None, c\<lparr>requests := requests c @ [mergePatchRequest target r patch]\<rparr>)
          else (Inl (Wrapped (''merge patch resource '' @ quoted (HumanID r)) e),
                cacheSet (c\<lparr>requests := requests c @ [mergePatchRequest target r patch]\<rparr>)
                  (VersionID r) (clusterCacheEntry None (Some e)))
      | Inr resultObj \<Rightarrow>
          (Inr (Some resultObj),
           cacheSet (c\<lparr>requests := requests c @ [mergePatchRequest target r patch]\<rparr>)
             (VersionID r) (clusterCacheEntry (Some resultObj) None)))"
  by (auto simp: MergePatch_def answer_def mergePatchRequest_def send_def split: sum.splits)




lemma Delete_unresolved: "resolve r = Inl e \<Longrightarrow> Delete c r opts = (Some e, c)"
  by (simp add: Delete_def)








lemma resolve_web: "resolve webDeployment = Inr (\<lparr>Group = ''apps'', Version = ''v1'', Resource = ''deployments''\<rparr>, webTarget)"
  by (simp add: resolve_def webDeployment_def webTarget_def clientResource_def)

lemma resolve_crd: "resolve widgetCRD = Inr (crdGVR, (crdGVR, None))"
  by (simp add: resolve_def widgetCRD_def clientResource_def)

lemma resolve_unmapped:
  "resolve unmappedResource = Inl (Wrapped ''get GroupVersionResource'' (OtherError ''no matches for kind''))"
  by (simp add: resolve_def unmappedResource_def)

lemma web_fields:
  "Name webDeployment = ''web''" "HumanID webDeployment = ''Deployment/web''"
  "VersionID webDeployment = ''apps:v1:Deployment:default:web''"
  by (simp_all add: webDeployment_def)

lemma crd_fields:
  "Name widgetCRD = ''widgets.example.com''"
  "HumanID widgetCRD = ''CustomResourceDefinition/widgets.example.com''"
  "VersionID widgetCRD = ''apiextensions.k8s.io:v1:CustomResourceDefinition::widgets.example.com''"
  by (simp_all add: widgetCRD_def)

lemma clientAfterRead_eq:
  "clientAfterRead =
     \<lparr>dynamicClient = vanishingCluster, requests = [ReqGet webTarget ''web''],
      clusterCache = [VersionID webDeployment \<mapsto> clusterCacheEntry (Some ''live'') None],
      mapperResets = 0\<rparr>"
  by (simp add: clientAfterRead_def Get_def resolve_web send_def NewKubeClient_def
        vanishingCluster_def cacheSet_def web_fields)




lemma Delete_resolved:
  "resolve r = Inr (gvr, target) \<Longrightarrow>
   Delete c r opts =
     (case answer c (deleteRequest target r opts) of
        Inl e \<Rightarrow>
          if IsNotFound e
          then (None, c\<lparr>requests := requests c @ [deleteRequest target r opts]\<rparr>)
          else (Some (Wrapped (''delete resource '' @ quoted (HumanID r)) e),
                c\<lparr>requests := requests c @ [deleteRequest target r opts]\<rparr>)
      | Inr x \<Rightarrow>
          (None, cacheDelete (c\<lparr>requests := requests c @ [deleteRequest target r opts]\<rparr>)
                   (VersionID r)))"
  by (cases "PropagationPolicy opts")
     (auto simp: Delete_def answer_def deleteRequest_def send_def Let_def split: sum.splits)

lemma Get_error_kept:
  "resolve r = Inr (gvr, target) \<Longrightarrow>
   (TryCache gopts \<longrightarrow> clusterCache c (VersionID r) = None) \<Longrightarrow>
   answer c (getRequest target r) = Inl e \<Longrightarrow>
   fst (Get c r gopts) = Inl (Wrapped (''get resource '' @ quoted (HumanID r)) e)"
  by (auto simp: Get_def answer_def getRequest_def send_def split: option.splits)

lemma Create_error_kept:
  "resolve r = Inr (gvr, target) \<Longrightarrow>
   answer c (createRequest setR target r u co) = Inl e \<Longrightarrow>
   fst (Create isCRD setR c r u co)
     = Inl (Wrapped (''server-side apply resource '' @ quoted (HumanID r)) e)"
  by (simp add: Create_resolved)

lemma Apply_error_kept:
  "resolve r = Inr (gvr, target) \<Longrightarrow>
   answer c (applyRequest target r u ao) = Inl e \<Longrightarrow>
   fst (Apply isCRD c r u ao)
     = Inl (Wrapped (''server-side '' @ (if DryRun ao then ''dry-run '' else []) @ ''apply resource ''
                       @ quoted (HumanID r)) e)"
  by (simp add: Apply_def answer_def applyRequest_def send_def Let_def)

text \<open>
  C4 (amended). For a resource that resolves: \<open>Delete\<close> sends one delete request, with
  the given propagation policy or foreground when none is given; when the cluster
  answers not-found it returns nil and leaves the cache as it was (the entry of the
  resource is not removed); when the cluster answers another error it returns that error
  wrapped and leaves the cache as it was; when the cluster's delete succeeds it returns
  nil and removes the resource's cache entry. For a resource that does not resolve,
  \<open>Delete\<close> returns the error and changes nothing. So the entry is removed only when the
  cluster's delete succeeds. \<open>MergePatch\<close> returns nil and nil when the cluster answers
  not-found, leaving the cache as it was, caches and returns any other error, and on
  success returns the object and caches it. \<open>Get\<close> (past the cache), \<open>Create\<close> and
  \<open>Apply\<close> return every error of the cluster, not-found included, wrapped and never as
  nil.
\<close>

theorem C4_notfound_downgrade:
  assumes "resolve r = Inr (gvr, target)"
  shows "requests (snd (Delete c r opts)) = requests c @ [deleteRequest target r opts]
    \<and> (PropagationPolicy opts = None \<longrightarrow>
         deleteRequest target r opts = (ReqDelete target (Name r) (Some DeletePropagationForeground) :: 'o Request))
    \<and> (PropagationPolicy opts = Some policy \<longrightarrow>
         deleteRequest target r opts = (ReqDelete target (Name r) (Some policy) :: 'o Request))
    \<and> (answer c (deleteRequest target r opts) = Inl e \<and> IsNotFound e \<longrightarrow>
         fst (Delete c r opts) = None
         \<and> clusterCache (snd (Delete c r opts)) = clusterCache c)
    \<and> (answer c (deleteRequest target r opts) = Inl e \<and> \<not> IsNotFound e \<longrightarrow>
         fst (Delete c r opts) = Some (Wrapped (''delete resource '' @ quoted (HumanID r)) e)
         \<and> clusterCache (snd (Delete c r opts)) = clusterCache c)
    \<and> (answer c (deleteRequest target r opts) = Inr x \<longrightarrow>
         fst (Delete c r opts) = None
         \<and> clusterCache (snd (Delete c r opts)) = (clusterCache c)(VersionID r := None))
    \<and> (resolve r' = Inl e' \<longrightarrow> Delete c r' opts = (Some e', c))
    \<and> (answer c (mergePatchRequest target r patch) = Inl e \<and> IsNotFound e \<longrightarrow>
         fst (MergePatch c r patch) = Inr None
         \<and> clusterCache (snd (MergePatch c r patch)) = clusterCache c)
    \<and> (answer c (mergePatchRequest target r patch) = Inl e \<and> \<not> IsNotFound e \<longrightarrow>
         fst (MergePatch c r patch)
           = Inl (Wrapped (''merge patch resource '' @ quoted (HumanID r)) e)
         \<and> clusterCache (snd (MergePatch c r patch))
             = (clusterCache c)(VersionID r \<mapsto> clusterCacheEntry None (Some e)))
    \<and> (answer c (mergePatchRequest target r patch) = Inr x \<longrightarrow>
         fst (MergePatch c r patch) = Inr (Some x)
         \<and> clusterCache (snd (MergePatch c r patch))
             = (clusterCache c)(VersionID r \<mapsto> clusterCacheEntry (Some x) None))
    \<and> (answer c (getRequest target r) = Inl e \<and> (TryCache gopts \<longrightarrow> clusterCache c (VersionID r) = None) \<longrightarrow>
         fst (Get c r gopts) = Inl (Wrapped (''get resource '' @ quoted (HumanID r)) e))
    \<and> (answer c (createRequest setR target r u co) = Inl e \<longrightarrow>
         fst (Create isCRD setR c r u co)
           = Inl (Wrapped (''server-side apply resource '' @ quoted (HumanID r)) e))
    \<and> (answer c (applyRequest target r u ao) = Inl e \<longrightarrow>
         fst (Apply isCRD c r u ao)
           = Inl (Wrapped (''server-side '' @ (if DryRun ao then ''dry-run '' else [])
                             @ ''apply resource '' @ quoted (HumanID r)) e))"
proof (intro conjI impI)
  show "requests (snd (Delete c r opts)) = requests c @ [deleteRequest target r opts]"
    by (simp add: Delete_resolved[OF assms] cacheDelete_def split: sum.splits)
next
  assume "PropagationPolicy opts = None"
  then show "deleteRequest target r opts = (ReqDelete target (Name r) (Some DeletePropagationForeground) :: 'o Request)"
    by (simp add: deleteRequest_def)
next
  assume "PropagationPolicy opts = Some policy"
  then show "deleteRequest target r opts = (ReqDelete target (Name r) (Some policy) :: 'o Request)"
    by (simp add: deleteRequest_def)
next
  assume "answer c (deleteRequest target r opts) = Inl e \<and> IsNotFound e"
  then show "fst (Delete c r opts) = None" "clusterCache (snd (Delete c r opts)) = clusterCache c"
    by (simp_all add: Delete_resolved[OF assms])
next
  assume "answer c (deleteRequest target r opts) = Inl e \<and> \<not> IsNotFound e"
  then show "fst (Delete c r opts) = Some (Wrapped (''delete resource '' @ quoted (HumanID r)) e)"
    "clusterCache (snd (Delete c r opts)) = clusterCache c"
    by (simp_all add: Delete_resolved[OF assms])
next
  assume "answer c (deleteRequest target r opts) = Inr x"
  then show "fst (Delete c r opts) = None"
      "clusterCache (snd (Delete c r opts)) = (clusterCache c)(VersionID r := None)"
    by (simp_all add: Delete_resolved[OF assms] cacheDelete_def)
next
  assume "resolve r' = Inl e'"
  then show "Delete c r' opts = (Some e', c)"
    by (rule Delete_unresolved)
next
  assume "answer c (mergePatchRequest target r patch) = Inl e \<and> IsNotFound e"
  then show "fst (MergePatch c r patch) = Inr None"
      "clusterCache (snd (MergePatch c r patch)) = clusterCache c"
    by (simp_all add: MergePatch_resolved[OF assms])
next
  assume "answer c (mergePatchRequest target r patch) = Inl e \<and> \<not> IsNotFound e"
  then show "fst (MergePatch c r patch)
           = Inl (Wrapped (''merge patch resource '' @ quoted (HumanID r)) e)"
      "clusterCache (snd (MergePatch c r patch))
             = (clusterCache c)(VersionID r \<mapsto> clusterCacheEntry None (Some e))"
    by (simp_all add: MergePatch_resolved[OF assms] cacheSet_def)
next
  assume "answer c (mergePatchRequest target r patch) = Inr x"
  then show "fst (MergePatch c r patch) = Inr (Some x)"
      "clusterCache (snd (MergePatch c r patch))
             = (clusterCache c)(VersionID r \<mapsto> clusterCacheEntry (Some x) None)"
    by (simp_all add: MergePatch_resolved[OF assms] cacheSet_def)
next
  assume "answer c (getRequest target r) = Inl e \<and> (TryCache gopts \<longrightarrow> clusterCache c (VersionID r) = None)"
  then show "fst (Get c r gopts) = Inl (Wrapped (''get resource '' @ quoted (HumanID r)) e)"
    using Get_error_kept[OF assms] by blast
next
  assume "answer c (createRequest setR target r u co) = Inl e"
  then show "fst (Create isCRD setR c r u co)
           = Inl (Wrapped (''server-side apply resource '' @ quoted (HumanID r)) e)"
    by (rule Create_error_kept[OF assms])
next
  assume "answer c (applyRequest target r u ao) = Inl e"
  then show "fst (Apply isCRD c r u ao)
           = Inl (Wrapped (''server-side '' @ (if DryRun ao then ''dry-run '' else [])
                             @ ''apply resource '' @ quoted (HumanID r)) e)"
    by (rule Apply_error_kept[OF assms])
qed

text \<open>
  C4 (as stated) fails: the client has cached the deployment, the cluster answers the
  delete with not-found, \<open>Delete\<close> returns nil, and the cache entry is still there.
\<close>

theorem C4_delete_notfound_keeps_cache_entry:
  "answer clientAfterRead (deleteRequest webTarget webDeployment (KubeClientDeleteOptions None))
     = Inl (NotFoundError ''not found'')
   \<and> clusterCache clientAfterRead (VersionID webDeployment)
       = Some (clusterCacheEntry (Some ''live'') None)
   \<and> fst (Delete clientAfterRead webDeployment (KubeClientDeleteOptions None)) = None
   \<and> clusterCache (snd (Delete clientAfterRead webDeployment (KubeClientDeleteOptions None)))
        (VersionID webDeployment)
       = Some (clusterCacheEntry (Some ''live'') None)"
  by (simp add: clientAfterRead_eq answer_def deleteRequest_def vanishingCluster_def
        Delete_def resolve_web send_def Let_def web_fields)

theorem C4_notfound_downgrade_witness:
  "fst (Delete clientAfterRead webDeployment (KubeClientDeleteOptions None)) = None
   \<and> requests (snd (Delete clientAfterRead webDeployment (KubeClientDeleteOptions None)))
       = [ReqGet webTarget ''web'', ReqDelete webTarget ''web'' (Some DeletePropagationForeground)]
   \<and> requests (snd (Delete clientAfterRead webDeployment
                        (KubeClientDeleteOptions (Some DeletePropagationOrphan))))
       = [ReqGet webTarget ''web'', ReqDelete webTarget ''web'' (Some DeletePropagationOrphan)]
   \<and> fst (MergePatch clientAfterRead webDeployment ''patch'') = Inr None
   \<and> fst (Delete (clientAfterRead\<lparr>dynamicClient := liveCluster\<rparr>) webDeployment
             (KubeClientDeleteOptions None)) = None
   \<and> clusterCache (snd (Delete (clientAfterRead\<lparr>dynamicClient := liveCluster\<rparr>) webDeployment
                            (KubeClientDeleteOptions None))) (VersionID webDeployment) = None
   \<and> fst (Delete (clientAfterRead\<lparr>dynamicClient := failingCluster\<rparr>) webDeployment
             (KubeClientDeleteOptions None))
       = Some (Wrapped (''delete resource '' @ quoted ''Deployment/web'')
                 (OtherError ''connection refused''))
   \<and> clusterCache (snd (Delete (clientAfterRead\<lparr>dynamicClient := failingCluster\<rparr>) webDeployment
                            (KubeClientDeleteOptions None))) (VersionID webDeployment)
       = Some (clusterCacheEntry (Some ''live'') None)
   \<and> Delete clientAfterRead unmappedResource (KubeClientDeleteOptions None)
       = (Some (Wrapped ''get GroupVersionResource'' (OtherError ''no matches for kind'')),
          clientAfterRead)
   \<and> fst (MergePatch (NewKubeClient failingCluster) webDeployment ''patch'')
       = Inl (Wrapped (''merge patch resource '' @ quoted ''Deployment/web'')
                (OtherError ''connection refused''))
   \<and> fst (MergePatch (NewKubeClient liveCluster) webDeployment ''patch'') = Inr (Some ''live'')
   \<and> fst (Get (NewKubeClient emptyCluster) webDeployment (KubeClientGetOptions True))
       = Inl (Wrapped (''get resource '' @ quoted ''Deployment/web'') (NotFoundError ''not found''))
   \<and> fst (Create isCRDGroupResource (\<lambda>u n. u) (NewKubeClient emptyCluster) webDeployment
             ''manifest'' (KubeClientCreateOptions None))
       = Inl (Wrapped (''server-side apply resource '' @ quoted ''Deployment/web'')
                (NotFoundError ''not found''))
   \<and> fst (Apply isCRDGroupResource (NewKubeClient emptyCluster) webDeployment
             ''manifest'' (KubeClientApplyOptions False))
       = Inl (Wrapped (''server-side apply resource '' @ quoted ''Deployment/web'')
                (NotFoundError ''not found''))"
proof -
  note gone = C4_notfound_downgrade
      [OF resolve_web, where c = clientAfterRead and opts = "KubeClientDeleteOptions None"
         and e = "NotFoundError ''not found''" and patch = "''patch''"
         and r' = unmappedResource
         and e' = "Wrapped ''get GroupVersionResource'' (OtherError ''no matches for kind'')"]
  note orphan = C4_notfound_downgrade
      [OF resolve_web, where c = clientAfterRead
         and opts = "KubeClientDeleteOptions (Some DeletePropagationOrphan)"
         and policy = DeletePropagationOrphan]
  note live = C4_notfound_downgrade
      [OF resolve_web, where c = "clientAfterRead\<lparr>dynamicClient := liveCluster\<rparr>"
         and opts = "KubeClientDeleteOptions None" and x = "''live''"]
  note failing = C4_notfound_downgrade
      [OF resolve_web, where c = "clientAfterRead\<lparr>dynamicClient := failingCluster\<rparr>"
         and opts = "KubeClientDeleteOptions None" and e = "OtherError ''connection refused''"]
  note unpatched = C4_notfound_downgrade
      [OF resolve_web, where c = "NewKubeClient failingCluster"
         and e = "OtherError ''connection refused''" and patch = "''patch''"]
  note patched = C4_notfound_downgrade
      [OF resolve_web, where c = "NewKubeClient liveCluster" and x = "''live''"
         and patch = "''patch''"]
  note absent = C4_notfound_downgrade
      [OF resolve_web, where c = "NewKubeClient emptyCluster"
         and e = "NotFoundError ''not found''" and gopts = "KubeClientGetOptions True"
         and setR = "\<lambda>u n. u" and u = "''manifest''" and co = "KubeClientCreateOptions None"
         and ao = "KubeClientApplyOptions False" and isCRD = isCRDGroupResource]
  from gone orphan live failing unpatched patched absent show ?thesis
    by (simp add: clientAfterRead_eq answer_def deleteRequest_def mergePatchRequest_def
          getRequest_def createRequest_def applyRequest_def vanishingCluster_def
          liveCluster_def emptyCluster_def failingCluster_def NewKubeClient_def web_fields
          resolve_unmapped)
qed

lemma Apply_dry_run_frame:
  "clusterCache (snd (Apply isCRD c r u (KubeClientApplyOptions True))) = clusterCache c
   \<and> mapperResets (snd (Apply isCRD c r u (KubeClientApplyOptions True))) = mapperResets c
   \<and> requests (snd (Apply isCRD c r u (KubeClientApplyOptions True))) =
       (case resolve r of
          Inl e \<Rightarrow> requests c
        | Inr (gvr, target) \<Rightarrow>
            requests c @ [ReqApply target (Name r) u (ApplyOptions [DryRunAll] True DefaultFieldManager)])"
  by (auto simp: Apply_def send_def Let_def split: sum.splits prod.splits)

lemma Apply_crd_reset:
  "resolve r = Inr (gvr, target) \<Longrightarrow> isCRD (GroupResource gvr) \<Longrightarrow>
   Apply isCRD c r u (KubeClientApplyOptions False) = (Inr x, c') \<Longrightarrow>
   mapperResets c' = Suc (mapperResets c)"
  by (auto simp: Apply_def send_def Let_def cacheSet_def mapperReset_def split: sum.splits)

lemma Create_crd_reset:
  "resolve r = Inr (gvr, target) \<Longrightarrow> isCRD (GroupResource gvr) \<Longrightarrow>
   Create isCRD setR c r u co = (Inr x, c') \<Longrightarrow>
   mapperResets c' = Suc (mapperResets c)"
  by (auto simp: Create_def send_def Let_def cacheSet_def mapperReset_def split: sum.splits)

text \<open>
  C5. An \<open>Apply\<close> with \<open>DryRun\<close> set leaves the cache and the mapper as they were,
  whether the call succeeds or fails and whether or not the resource is a custom
  resource definition, and the one request it sends (when the resource resolves)
  carries the dry-run directive. A non-dry-run \<open>Apply\<close> or a \<open>Create\<close> of a custom
  resource definition that succeeds resets the mapper once.
\<close>

theorem C5_dry_run_frame_and_crd_reset:
  "clusterCache (snd (Apply isCRD c r u (KubeClientApplyOptions True))) = clusterCache c
   \<and> mapperResets (snd (Apply isCRD c r u (KubeClientApplyOptions True))) = mapperResets c
   \<and> requests (snd (Apply isCRD c r u (KubeClientApplyOptions True))) =
       (case resolve r of
          Inl e \<Rightarrow> requests c
        | Inr (gvr, target) \<Rightarrow>
            requests c @ [ReqApply target (Name r) u (ApplyOptions [DryRunAll] True DefaultFieldManager)])
   \<and> (resolve r = Inr (gvr', target') \<and> isCRD (GroupResource gvr') \<longrightarrow>
        (Apply isCRD c r u (KubeClientApplyOptions False) = (Inr x, c1) \<longrightarrow>
           mapperResets c1 = Suc (mapperResets c))
        \<and> (Create isCRD setR c r u co = (Inr y, c2) \<longrightarrow>
             mapperResets c2 = Suc (mapperResets c)))"
  using Apply_dry_run_frame[of isCRD c r u] Apply_crd_reset[of r gvr' target' isCRD c u x c1]
    Create_crd_reset[of r gvr' target' isCRD setR c u co y c2]
  by blast


theorem C5_dry_run_frame_and_crd_reset_witness:
  "mapperResets (snd (Apply isCRDGroupResource (NewKubeClient liveCluster) widgetCRD ''crd''
                        (KubeClientApplyOptions True))) = 0
   \<and> clusterCache (snd (Apply isCRDGroupResource (NewKubeClient liveCluster) widgetCRD ''crd''
                        (KubeClientApplyOptions True))) = Map.empty
   \<and> requests (snd (Apply isCRDGroupResource (NewKubeClient liveCluster) widgetCRD ''crd''
                        (KubeClientApplyOptions True)))
       = [ReqApply (crdGVR, None) ''widgets.example.com'' ''crd''
            (ApplyOptions [''All''] True ''nelm'')]
   \<and> mapperResets (snd (Apply isCRDGroupResource (NewKubeClient liveCluster) widgetCRD ''crd''
                        (KubeClientApplyOptions False))) = 1
   \<and> mapperResets (snd (Create isCRDGroupResource (\<lambda>u n. u) (NewKubeClient liveCluster)
                        widgetCRD ''crd'' (KubeClientCreateOptions None))) = 1"
proof -
  let ?apply = "Apply isCRDGroupResource (NewKubeClient liveCluster) widgetCRD ''crd''
                  (KubeClientApplyOptions False)"
  let ?create = "Create isCRDGroupResource (\<lambda>u n. u) (NewKubeClient liveCluster)
                        widgetCRD ''crd'' (KubeClientCreateOptions None)"
  have applied: "?apply = (Inr (Some ''live''), snd ?apply)"
    by (simp add: Apply_def resolve_crd send_def NewKubeClient_def liveCluster_def Let_def)
  have created: "?create = (Inr (Some ''live''), snd ?create)"
    by (simp add: Create_def resolve_crd send_def NewKubeClient_def liveCluster_def Let_def)
  have crd: "isCRDGroupResource (GroupResource crdGVR)"
    by (simp add: isCRDGroupResource_def GroupResource_def crdGVR_def)
  from C5_dry_run_frame_and_crd_reset
         [where isCRD = isCRDGroupResource and c = "NewKubeClient liveCluster" and r = widgetCRD
            and u = "''crd''" and gvr' = crdGVR and target' = "(crdGVR, None)"
            and x = "Some ''live''" and ?c1.0 = "snd ?apply" and setR = "\<lambda>u n. u"
            and co = "KubeClientCreateOptions None" and y = "Some ''live''"
            and ?c2.0 = "snd ?create"]
       applied created crd
  show ?thesis
    by (simp add: resolve_crd NewKubeClient_def DryRunAll_def DefaultFieldManager_def
          crd_fields)
qed

section \<open>Plan queries: results\<close>

lemma lookupAll_plain:
  "list_all (plainID Sprintf) ks \<Longrightarrow> set ks \<subseteq> fst ` set (vertices (graph p)) \<Longrightarrow>
   lookupAll Sprintf p ks = Inr (map (\<lambda>k. the (map_of (vertices (graph p)) k)) ks)"
proof (induction ks)
  case Nil
  then show ?case by simp
next
  case (Cons k ks)
  from Cons.prems have plain: "Sprintf k [] = k"
    by (simp add: plainID_def)
  from Cons.prems have rest: "list_all (plainID Sprintf) ks"
    and sub: "set ks \<subseteq> fst ` set (vertices (graph p))" and mem: "k \<in> fst ` set (vertices (graph p))"
    by simp_all
  from mem obtain v where v: "map_of (vertices (graph p)) k = Some v"
    by (metis map_of_eq_None_iff not_None_eq)
  have "Operation Sprintf p k [] = Inr (Some v)"
    by (simp add: Operation_def Vertex_def plain v)
  with Cons.IH[OF rest sub] v show ?case by simp
qed

lemma set_lookup_keys:
  "set (map (\<lambda>k. the (map_of vs k)) (map fst vs)) = ran (map_of vs)"
proof (intro set_eqI iffI)
  fix v
  assume "v \<in> set (map (\<lambda>k. the (map_of vs k)) (map fst vs))"
  then obtain k where k: "k \<in> fst ` set vs" and v: "v = the (map_of vs k)"
    by auto
  from k obtain w where "map_of vs k = Some w"
    by (metis map_of_eq_None_iff not_None_eq)
  with v show "v \<in> ran (map_of vs)"
    by (simp add: ranI)
next
  fix v
  assume "v \<in> ran (map_of vs)"
  then obtain k where k: "map_of vs k = Some v"
    by (auto simp: ran_def)
  then have "k \<in> fst ` set vs"
    by (metis map_of_eq_None_iff option.distinct(1))
  with k have "the (map_of vs k) = v" "k \<in> set (map fst vs)"
    by simp_all
  then show "v \<in> set (map (\<lambda>k. the (map_of vs k)) (map fst vs))"
    unfolding set_map by (metis imageI)
qed

lemma Operations_plain:
  assumes "plainIDs Sprintf p"
  shows "\<exists>ops. Operations Sprintf p = Inr (ops, ops \<noteq> []) \<and> set ops = planOperations p"
proof -
  let ?ops = "map (\<lambda>k. the (map_of (vertices (graph p)) k)) (map fst (vertices (graph p)))"
  have "lookupAll Sprintf p (AdjacencyMapKeys (graph p)) = Inr ?ops"
    using assms lookupAll_plain[of Sprintf "AdjacencyMapKeys (graph p)" p]
    by (simp add: plainIDs_def AdjacencyMapKeys_def)
  then have "Operations Sprintf p = Inr (?ops, ?ops \<noteq> [])"
    by (simp add: Operations_def)
  moreover have "set ?ops = planOperations p"
    unfolding planOperations_def by (rule set_lookup_keys)
  ultimately show ?thesis by blast
qed

lemma CompletedOperations_plain:
  assumes "plainIDs Sprintf p"
  shows "\<exists>ops. CompletedOperations Sprintf p = Inr (ops, ops \<noteq> [])
           \<and> set ops = {op \<in> planOperations p. opStatus op = OperationStatusCompleted}"
proof -
  from Operations_plain[OF assms] obtain ops where
    o: "Operations Sprintf p = Inr (ops, ops \<noteq> [])" "set ops = planOperations p" by blast
  show ?thesis
  proof (cases "ops = []")
    case True
    with o show ?thesis by (auto simp: CompletedOperations_def)
  next
    case False
    with o show ?thesis by (auto simp: CompletedOperations_def Let_def)
  qed
qed

lemma FailedOperations_plain:
  assumes "plainIDs Sprintf p"
  shows "\<exists>ops. FailedOperations Sprintf p = Inr (ops, ops \<noteq> [])
           \<and> set ops = {op \<in> planOperations p. opStatus op = OperationStatusFailed}"
proof -
  from Operations_plain[OF assms] obtain ops where
    o: "Operations Sprintf p = Inr (ops, ops \<noteq> [])" "set ops = planOperations p" by blast
  show ?thesis
  proof (cases "ops = []")
    case True
    with o show ?thesis by (auto simp: FailedOperations_def)
  next
    case False
    with o show ?thesis by (auto simp: FailedOperations_def Let_def)
  qed
qed

lemma CanceledOperations_plain:
  assumes "plainIDs Sprintf p"
  shows "\<exists>ops. CanceledOperations Sprintf p = Inr (ops, ops \<noteq> [])
           \<and> set ops = {op \<in> planOperations p. opStatus op = OperationStatusUnknown}"
proof -
  from Operations_plain[OF assms] obtain ops where
    o: "Operations Sprintf p = Inr (ops, ops \<noteq> [])" "set ops = planOperations p" by blast
  show ?thesis
  proof (cases "ops = []")
    case True
    with o show ?thesis by (auto simp: CanceledOperations_def)
  next
    case False
    with o show ?thesis by (auto simp: CanceledOperations_def Let_def)
  qed
qed

lemma WorthyCompletedOperations_plain:
  assumes "plainIDs Sprintf p"
  shows "\<exists>ops. WorthyCompletedOperations Sprintf p = Inr (ops, ops \<noteq> [])
           \<and> set ops = {op \<in> planOperations p. opStatus op = OperationStatusCompleted
                                                 \<and> worthyCompletedType (opType op)}"
proof -
  from CompletedOperations_plain[OF assms] obtain ops where
    o: "CompletedOperations Sprintf p = Inr (ops, ops \<noteq> [])"
       "set ops = {op \<in> planOperations p. opStatus op = OperationStatusCompleted}" by blast
  show ?thesis
  proof (cases "ops = []")
    case True
    with o show ?thesis by (auto simp: WorthyCompletedOperations_def)
  next
    case False
    with o show ?thesis by (auto simp: WorthyCompletedOperations_def Let_def)
  qed
qed

lemma WorthyFailedOperations_plain:
  assumes "plainIDs Sprintf p"
  shows "\<exists>ops. WorthyFailedOperations Sprintf p = Inr (ops, ops \<noteq> [])
           \<and> set ops = {op \<in> planOperations p. opStatus op = OperationStatusFailed}"
proof -
  from FailedOperations_plain[OF assms] obtain ops where
    o: "FailedOperations Sprintf p = Inr (ops, ops \<noteq> [])"
       "set ops = {op \<in> planOperations p. opStatus op = OperationStatusFailed}" by blast
  show ?thesis
  proof (cases "ops = []")
    case True
    with o show ?thesis by (auto simp: WorthyFailedOperations_def)
  next
    case False
    with o show ?thesis by (auto simp: WorthyFailedOperations_def Let_def)
  qed
qed

lemma WorthyCanceledOperations_plain:
  assumes "plainIDs Sprintf p"
  shows "\<exists>ops. WorthyCanceledOperations Sprintf p = Inr (ops, ops \<noteq> [])
           \<and> set ops = {op \<in> planOperations p. opStatus op = OperationStatusUnknown
                                                 \<and> worthyCanceledType (opType op)}"
proof -
  from CanceledOperations_plain[OF assms] obtain ops where
    o: "CanceledOperations Sprintf p = Inr (ops, ops \<noteq> [])"
       "set ops = {op \<in> planOperations p. opStatus op = OperationStatusUnknown}" by blast
  show ?thesis
  proof (cases "ops = []")
    case True
    with o show ?thesis by (auto simp: WorthyCanceledOperations_def)
  next
    case False
    with o show ?thesis by (auto simp: WorthyCanceledOperations_def Let_def)
  qed
qed

lemma worthyCompletedType_iff:
  "worthyCompletedType t =
     (t \<in> {TypeCreateResourceOperation, TypeRecreateResourceOperation,
            TypeUpdateResourceOperation, TypeApplyResourceOperation,
            TypeDeleteResourceOperation, TypeExtraPostCreateResourceOperation,
            TypeExtraPostRecreateResourceOperation, TypeExtraPostApplyResourceOperation,
            TypeExtraPostUpdateResourceOperation, TypeExtraPostDeleteResourceOperation})"
  by (cases t) simp_all

lemma worthyCanceledType_iff:
  "worthyCanceledType t =
     (t \<in> {TypeCreateResourceOperation, TypeRecreateResourceOperation,
            TypeUpdateResourceOperation, TypeApplyResourceOperation,
            TypeDeleteResourceOperation})"
  by (cases t) simp_all

lemma uselessLoop_False:
  "op \<in> set ops \<Longrightarrow> affectsResources (opType op) \<Longrightarrow> \<not> opEmpty op \<Longrightarrow> uselessLoop ops = False"
  by (induction ops) auto


text \<open>
  C3 (amended). For every plan whose operation identifiers hold no formatting verb:
  \<open>WorthyCompletedOperations\<close> returns exactly the completed operations of the ten
  resource-mutating kinds (create, recreate, update, apply, delete and their extra-post
  counterparts); \<open>WorthyFailedOperations\<close> returns exactly the failed operations, of
  every kind, trackers, stage markers and release operations included;
  \<open>WorthyCanceledOperations\<close> returns canceled operations (status unknown) of
  resource-mutating kinds only, and every canceled operation of the kinds create,
  recreate, update, apply and delete is among them. The flag returned with each list
  says whether the list is non-empty.
\<close>

theorem C3_worthy_operations:
  assumes "plainIDs Sprintf p"
  shows "(\<exists>ops. WorthyCompletedOperations Sprintf p = Inr (ops, ops \<noteq> [])
            \<and> set ops = {op \<in> planOperations p.
                  opStatus op = OperationStatusCompleted
                  \<and> opType op \<in> {TypeCreateResourceOperation, TypeRecreateResourceOperation,
                       TypeUpdateResourceOperation, TypeApplyResourceOperation,
                       TypeDeleteResourceOperation, TypeExtraPostCreateResourceOperation,
                       TypeExtraPostRecreateResourceOperation, TypeExtraPostApplyResourceOperation,
                       TypeExtraPostUpdateResourceOperation, TypeExtraPostDeleteResourceOperation}})
    \<and> (\<exists>ops. WorthyFailedOperations Sprintf p = Inr (ops, ops \<noteq> [])
            \<and> set ops = {op \<in> planOperations p. opStatus op = OperationStatusFailed})
    \<and> (\<exists>ops. WorthyCanceledOperations Sprintf p = Inr (ops, ops \<noteq> [])
            \<and> {op \<in> planOperations p.
                  opStatus op = OperationStatusUnknown
                  \<and> opType op \<in> {TypeCreateResourceOperation, TypeRecreateResourceOperation,
                       TypeUpdateResourceOperation, TypeApplyResourceOperation,
                       TypeDeleteResourceOperation}} \<subseteq> set ops
            \<and> set ops \<subseteq> {op \<in> planOperations p.
                  opStatus op = OperationStatusUnknown
                  \<and> opType op \<in> {TypeCreateResourceOperation, TypeRecreateResourceOperation,
                       TypeUpdateResourceOperation, TypeApplyResourceOperation,
                       TypeDeleteResourceOperation, TypeExtraPostCreateResourceOperation,
                       TypeExtraPostRecreateResourceOperation, TypeExtraPostApplyResourceOperation,
                       TypeExtraPostUpdateResourceOperation, TypeExtraPostDeleteResourceOperation}})"
proof (intro conjI)
  show "\<exists>ops. WorthyCompletedOperations Sprintf p = Inr (ops, ops \<noteq> [])
            \<and> set ops = {op \<in> planOperations p.
                  opStatus op = OperationStatusCompleted
                  \<and> opType op \<in> {TypeCreateResourceOperation, TypeRecreateResourceOperation,
                       TypeUpdateResourceOperation, TypeApplyResourceOperation,
                       TypeDeleteResourceOperation, TypeExtraPostCreateResourceOperation,
                       TypeExtraPostRecreateResourceOperation, TypeExtraPostApplyResourceOperation,
                       TypeExtraPostUpdateResourceOperation, TypeExtraPostDeleteResourceOperation}}"
    using WorthyCompletedOperations_plain[OF assms]
    unfolding worthyCompletedType_iff .
next
  show "\<exists>ops. WorthyFailedOperations Sprintf p = Inr (ops, ops \<noteq> [])
            \<and> set ops = {op \<in> planOperations p. opStatus op = OperationStatusFailed}"
    by (rule WorthyFailedOperations_plain[OF assms])
next
  from WorthyCanceledOperations_plain[OF assms] obtain ops where
    o: "WorthyCanceledOperations Sprintf p = Inr (ops, ops \<noteq> [])"
       "set ops = {op \<in> planOperations p. opStatus op = OperationStatusUnknown
                                            \<and> worthyCanceledType (opType op)}"
    by blast
  have "set ops \<subseteq> {op \<in> planOperations p.
                  opStatus op = OperationStatusUnknown
                  \<and> opType op \<in> {TypeCreateResourceOperation, TypeRecreateResourceOperation,
                       TypeUpdateResourceOperation, TypeApplyResourceOperation,
                       TypeDeleteResourceOperation, TypeExtraPostCreateResourceOperation,
                       TypeExtraPostRecreateResourceOperation, TypeExtraPostApplyResourceOperation,
                       TypeExtraPostUpdateResourceOperation, TypeExtraPostDeleteResourceOperation}}"
    unfolding o(2) worthyCanceledType_iff by blast
  moreover have "{op \<in> planOperations p.
                  opStatus op = OperationStatusUnknown
                  \<and> opType op \<in> {TypeCreateResourceOperation, TypeRecreateResourceOperation,
                       TypeUpdateResourceOperation, TypeApplyResourceOperation,
                       TypeDeleteResourceOperation}} \<subseteq> set ops"
    unfolding o(2) worthyCanceledType_iff by blast
  ultimately show "\<exists>ops. WorthyCanceledOperations Sprintf p = Inr (ops, ops \<noteq> [])
            \<and> {op \<in> planOperations p.
                  opStatus op = OperationStatusUnknown
                  \<and> opType op \<in> {TypeCreateResourceOperation, TypeRecreateResourceOperation,
                       TypeUpdateResourceOperation, TypeApplyResourceOperation,
                       TypeDeleteResourceOperation}} \<subseteq> set ops
            \<and> set ops \<subseteq> {op \<in> planOperations p.
                  opStatus op = OperationStatusUnknown
                  \<and> opType op \<in> {TypeCreateResourceOperation, TypeRecreateResourceOperation,
                       TypeUpdateResourceOperation, TypeApplyResourceOperation,
                       TypeDeleteResourceOperation, TypeExtraPostCreateResourceOperation,
                       TypeExtraPostRecreateResourceOperation, TypeExtraPostApplyResourceOperation,
                       TypeExtraPostUpdateResourceOperation, TypeExtraPostDeleteResourceOperation}}"
    using o(1) by blast
qed

lemma plain_noVerbs: "plainID noVerbs k"
  by (simp add: plainID_def noVerbs_def)

lemma sample_ids:
  "opID completedStage = ''stage/install/start''"
  "opID appliedWeb = ''apply/apps:Deployment:default:web''"
  "opID applyWeb = ''apply/apps:Deployment:default:web''"
  "opID failedTracker = ''track-readiness/apps:Deployment:default:web''"
  "opID canceledDelete = ''delete/apps:Deployment:default:old''"
  by (simp_all add: completedStage_def appliedWeb_def applyWeb_def failedTracker_def
        canceledDelete_def webDeployment_def)

lemma sample_status_type:
  "opStatus completedStage = OperationStatusCompleted" "opType completedStage = TypeStageOperation"
  "opStatus appliedWeb = OperationStatusCompleted" "opType appliedWeb = TypeApplyResourceOperation"
  "opStatus failedTracker = OperationStatusFailed"
  "opType failedTracker = TypeTrackResourceReadinessOperation"
  "opStatus canceledDelete = OperationStatusUnknown"
  "opType canceledDelete = TypeDeleteResourceOperation"
  by (simp_all add: completedStage_def appliedWeb_def failedTracker_def canceledDelete_def)

lemma Operations_planAfterFailure:
  "Operations noVerbs planAfterFailure
     = Inr ([completedStage, appliedWeb, failedTracker, canceledDelete], True)"
  by (simp add: Operations_def AdjacencyMapKeys_def planAfterFailure_def Operation_def
        Vertex_def noVerbs_def sample_ids)

theorem C3_worthy_operations_witness:
  "WorthyCompletedOperations noVerbs planAfterFailure = Inr ([appliedWeb], True)
   \<and> WorthyFailedOperations noVerbs planAfterFailure = Inr ([failedTracker], True)
   \<and> WorthyCanceledOperations noVerbs planAfterFailure = Inr ([canceledDelete], True)"
proof -
  have plain: "plainIDs noVerbs planAfterFailure"
    by (simp add: plainIDs_def plain_noVerbs list_all_iff)
  from C3_worthy_operations[OF plain] show ?thesis
    by (simp add: WorthyCompletedOperations_def WorthyFailedOperations_def
          WorthyCanceledOperations_def CompletedOperations_def FailedOperations_def
          CanceledOperations_def Operations_planAfterFailure sample_status_type)
qed

text \<open>
  C3 (as stated) fails: a failed readiness tracker, which is no resource-mutating
  operation, is returned by \<open>WorthyFailedOperations\<close>.
\<close>

theorem C3_failed_tracker_is_worthy:
  "opStatus failedTracker = OperationStatusFailed
   \<and> opType failedTracker = TypeTrackResourceReadinessOperation
   \<and> map_of (vertices (graph planAfterFailure)) (opID failedTracker) = Some failedTracker
   \<and> WorthyFailedOperations noVerbs planAfterFailure = Inr ([failedTracker], True)"
proof -
  have "map_of (vertices (graph planAfterFailure)) (opID failedTracker) = Some failedTracker"
    by (simp add: planAfterFailure_def sample_ids)
  moreover have "WorthyFailedOperations noVerbs planAfterFailure = Inr ([failedTracker], True)"
    by (simp add: WorthyFailedOperations_def FailedOperations_def Operations_planAfterFailure
          sample_status_type)
  ultimately show ?thesis
    by (simp add: sample_status_type)
qed

text \<open>
  C10. \<open>Empty\<close> of an apply operation is false whatever its resource, manifest, flags
  and status are; so \<open>Useless\<close> returns false for every plan (whose identifiers hold no
  formatting verb) that contains an apply operation.
\<close>

theorem C10_apply_never_empty:
  assumes "plainIDs Sprintf p" and "OpApply a \<in> planOperations p"
  shows "opEmpty (OpApply a) = False \<and> Useless Sprintf p = Inr False"
proof -
  from Operations_plain[OF assms(1)] obtain ops where
    o: "Operations Sprintf p = Inr (ops, ops \<noteq> [])" "set ops = planOperations p" by blast
  from assms(2) o(2) have mem: "OpApply a \<in> set ops" by simp
  then have ne: "ops \<noteq> []" by auto
  have "affectsResources (opType (OpApply a))" by simp
  with mem have "uselessLoop ops = False"
    by (rule uselessLoop_False) simp
  with o(1) ne show ?thesis by (simp add: Useless_def)
qed

theorem C10_apply_never_empty_witness:
  "opEmpty applyWeb = False \<and> Useless noVerbs planWithApply = Inr False"
proof -
  have plain: "plainIDs noVerbs planWithApply"
    by (simp add: plainIDs_def plain_noVerbs list_all_iff)
  have mem: "OpApply \<lparr>resource = webDeployment, unstruct = ''manifest'', manageableBy = ''anyone'',
              extraPost = False, applyStatus = OperationStatusUnknown\<rparr> \<in> planOperations planWithApply"
    by (simp add: planOperations_def planWithApply_def applyWeb_def ran_def)
  from C10_apply_never_empty[OF plain mem] show ?thesis
    by (simp add: applyWeb_def)
qed

section \<open>Plan construction: results\<close>

lemma AddDependency_existing:
  assumes "map_of (vertices (graph p)) a = Some va" "map_of (vertices (graph p)) b = Some vb"
    and "(a, b) \<in> set (edges (graph p))"
  shows "AddDependency p a b = (None, p)"
  using assms by (simp add: AddDependency_def AddEdge_def Vertex_def)

lemma CreatesCycle_iff:
  "CreatesCycle g a b = ((b, a) \<in> (set (edges g))\<^sup>*)"
  by (auto simp: CreatesCycle_def rtrancl_eq_or_trancl)

lemma would_cycle_iff:
  assumes "acyclic E"
  shows "(\<not> acyclic (insert (a, b) E)) = ((b, a) \<in> E\<^sup>*)"
  using assms by simp

lemma AddDependency_cycle:
  assumes "map_of (vertices (graph p)) a = Some va" "map_of (vertices (graph p)) b = Some vb"
    and "acyclic (set (edges (graph p)))"
    and "\<not> acyclic (insert (a, b) (set (edges (graph p))))"
  shows "AddDependency p a b = (Some (EdgeError a b ErrEdgeCreatesCycle), p)"
proof -
  from assms(3,4) have reach: "(b, a) \<in> (set (edges (graph p)))\<^sup>*"
    by (simp only: would_cycle_iff)
  have "(a, b) \<notin> set (edges (graph p))"
    using assms(3,4) by (metis insert_absorb)
  with reach assms(1,2) show ?thesis
    by (simp add: AddDependency_def AddEdge_def Vertex_def CreatesCycle_iff)
qed


lemma AddDependency_acyclic:
  assumes "acyclic (set (edges (graph p)))"
  shows "acyclic (set (edges (graph (snd (AddDependency p a b)))))"
proof -
  have "snd (AddDependency p a b) = p
        \<or> (snd (AddDependency p a b) = p\<lparr>graph := (graph p)\<lparr>edges := edges (graph p) @ [(a, b)]\<rparr>\<rparr>
            \<and> \<not> CreatesCycle (graph p) a b)"
    by (auto simp: AddDependency_def AddEdge_def split: sum.splits)
  then show ?thesis
  proof
    assume "snd (AddDependency p a b) = p"
    with assms show ?thesis by simp
  next
    assume added: "snd (AddDependency p a b) = p\<lparr>graph := (graph p)\<lparr>edges := edges (graph p) @ [(a, b)]\<rparr>\<rparr>
            \<and> \<not> CreatesCycle (graph p) a b"
    then have "(b, a) \<notin> (set (edges (graph p)))\<^sup>*"
      by (simp add: CreatesCycle_iff)
    with assms have "acyclic (insert (a, b) (set (edges (graph p))))"
      by simp
    with added show ?thesis by simp
  qed
qed

lemma AddOperation_edges:
  "AddOperation p op = Inr p' \<Longrightarrow> edges (graph p') = edges (graph p)"
  by (auto simp: AddOperation_def AddVertex_def split: option.splits if_splits)

lemma runCalls_acyclic:
  "acyclic (set (edges (graph p))) \<Longrightarrow> runCalls p calls = Inr q \<Longrightarrow>
   acyclic (set (edges (graph q)))"
proof (induction p calls rule: runCalls.induct)
  case (1 p)
  then show ?case by simp
next
  case (2 p op calls)
  from "2.prems"(2) obtain p' where step: "AddOperation p op = Inr p'" and rest: "runCalls p' calls = Inr q"
    by (auto split: sum.splits)
  from step "2.prems"(1) have "acyclic (set (edges (graph p')))"
    by (simp add: AddOperation_edges)
  with "2.IH"[OF step] rest show ?case by simp
next
  case (3 p a b calls)
  from "3.prems"(2) obtain p' where step: "AddDependency p a b = (None, p')" and rest: "runCalls p' calls = Inr q"
    by (auto split: prod.splits option.splits)
  from AddDependency_acyclic[OF "3.prems"(1), of a b] step have "acyclic (set (edges (graph p')))"
    by simp
  with "3.IH" step rest show ?case by auto
qed

lemma NewPlan_acyclic: "acyclic (set (edges (graph NewPlan)))"
  by (simp add: NewPlan_def acyclic_def)

text \<open>
  C7. For a plan whose graph is acyclic and identifiers \<open>a\<close>, \<open>b\<close> of vertices in it:
  when the edge from \<open>a\<close> to \<open>b\<close> exists, \<open>AddDependency\<close> returns nil and the plan is
  unchanged; when adding the edge would close a cycle, it returns an error and the plan
  is unchanged; in every case the graph after the call is acyclic. Hence every sequence
  of \<open>AddOperation\<close> and \<open>AddDependency\<close> calls on a new plan that succeeds yields an
  acyclic graph.
\<close>

theorem C7_add_dependency:
  assumes "map_of (vertices (graph p)) a = Some va" and "map_of (vertices (graph p)) b = Some vb"
    and "acyclic (set (edges (graph p)))"
  shows "((a, b) \<in> set (edges (graph p)) \<longrightarrow> AddDependency p a b = (None, p))
    \<and> (\<not> acyclic (insert (a, b) (set (edges (graph p)))) \<longrightarrow>
          AddDependency p a b = (Some (EdgeError a b ErrEdgeCreatesCycle), p))
    \<and> acyclic (set (edges (graph (snd (AddDependency p a b)))))
    \<and> (runCalls NewPlan calls = Inr q \<longrightarrow> acyclic (set (edges (graph q))))"
  using AddDependency_existing[OF assms(1,2)] AddDependency_cycle[OF assms]
    AddDependency_acyclic[OF assms(3)] runCalls_acyclic[OF NewPlan_acyclic]
  by blast








theorem C7_add_dependency_witness:
  "AddDependency planApplyThenTrack (opID applyWeb) (opID failedTracker)
     = (None, planApplyThenTrack)
   \<and> AddDependency planApplyThenTrack (opID failedTracker) (opID applyWeb)
     = (Some (EdgeError (opID failedTracker) (opID applyWeb) ErrEdgeCreatesCycle),
        planApplyThenTrack)
   \<and> runCalls NewPlan [CallAddOperation applyWeb, CallAddOperation failedTracker,
                        CallAddDependency (opID applyWeb) (opID failedTracker)]
     = Inr planApplyThenTrack
   \<and> acyclic (set (edges (graph planApplyThenTrack)))"
proof -
  let ?a = "opID applyWeb" and ?b = "opID failedTracker"
  have va: "map_of (vertices (graph planApplyThenTrack)) ?a = Some applyWeb"
    and vb: "map_of (vertices (graph planApplyThenTrack)) ?b = Some failedTracker"
    by (simp_all add: planApplyThenTrack_def sample_ids)
  have E: "set (edges (graph planApplyThenTrack)) = {(?a, ?b)}"
    by (simp add: planApplyThenTrack_def)
  have ne: "?b \<noteq> ?a"
    by (simp add: sample_ids)
  have "acyclic (insert (?a, ?b) {})"
    unfolding acyclic_insert using ne by (simp add: acyclic_def)
  then have acyc: "acyclic (set (edges (graph planApplyThenTrack)))"
    unfolding E .
  have "(?a, ?b) \<in> {(?a, ?b)}\<^sup>*"
    by (rule r_into_rtrancl) simp
  then have closes: "\<not> acyclic (insert (?b, ?a) (set (edges (graph planApplyThenTrack))))"
    unfolding E acyclic_insert by blast
  have run: "runCalls NewPlan [CallAddOperation applyWeb, CallAddOperation failedTracker,
                        CallAddDependency ?a ?b] = Inr planApplyThenTrack"
    by (simp add: NewPlan_def AddOperation_def AddVertex_def AddDependency_def AddEdge_def
          Vertex_def CreatesCycle_def planApplyThenTrack_def sample_ids)
  from C7_add_dependency[OF va vb acyc, of "[]" NewPlan] have
    "AddDependency planApplyThenTrack ?a ?b = (None, planApplyThenTrack)"
    unfolding E by blast
  moreover from C7_add_dependency[OF vb va acyc, of "[]" NewPlan] closes have
    "AddDependency planApplyThenTrack ?b ?a
       = (Some (EdgeError ?b ?a ErrEdgeCreatesCycle), planApplyThenTrack)"
    by blast
  ultimately show ?thesis
    using run acyc by blast
qed








end
